theory Spec2Isabelle
  imports Main "HOL-Library.AList"
begin

section \<open>Python values, exceptions and dictionaries\<close>

text \<open>
  The decorators of \<^verbatim>\<open>hamilton/function_modifiers.py\<close> turn one annotated function into
  graph nodes. The values that flow through them are dynamically typed; \<open>val\<close> is the
  fragment of Python's values the decorators look at:
  \<^item> \<open>NoneV\<close>, integers and strings;
  \<^item> tuples and lists;
  \<^item> \<open>FrameV\<close>, a pandas DataFrame as the dictionary of its columns, label to column
    (a column is one value here: the Series, or the scalar pandas broadcasts down it);
  \<^item> \<open>ObjV s\<close>, an object named \<open>s\<close> that has no attribute and supports no operator
    the code uses (a function, a module).
  Values carry no identity: where Python compares the items of two containers, the model
  compares them with \<^verbatim>\<open>==\<close> and never takes the shortcut for one and the same object
  (\<open>py_eq\<close> below); an object \<open>ObjV s\<close> equals the object of the same name only.
\<close>

datatype val =
    NoneV
  | IntV int
  | StrV string
  | TupleV "val list"
  | ListV "val list"
  | FrameV "(val \<times> val) list"
  | ObjV string

text \<open>\<^verbatim>\<open>hash(v)\<close> succeeds: lists and frames are unhashable, a tuple is hashable when its
  members are.\<close>

fun hashable :: "val \<Rightarrow> bool" where
  "hashable (TupleV vs) = list_all hashable vs"
| "hashable (ListV vs) = False"
| "hashable (FrameV cols) = False"
| "hashable v = True"

text \<open>
  The declared types the decorators inspect (\<^verbatim>\<open>inspect.signature(fn).return_annotation\<close>,
  parameter annotations, node types). A class carries its name and the names of its proper
  ancestors (its method resolution order without itself); a generic alias such as
  \<^verbatim>\<open>typing.Dict[str, int]\<close> carries its origin and arguments and is not a class; the
  annotation \<^verbatim>\<open>-> None\<close> is the object \<^verbatim>\<open>None\<close>, not a class either.
  An absent annotation is the class \<^verbatim>\<open>inspect._empty\<close>.
\<close>

datatype annotation =
    Class string "string list"
  | GenericAlias annotation "annotation list"
  | NoneAnn

definition inspect_empty :: annotation where
  "inspect_empty = Class ''_empty'' [''object'']"

definition pd_DataFrame :: annotation where
  "pd_DataFrame = Class ''DataFrame'' [''NDFrame'', ''object'']"

definition pd_Series :: annotation where
  "pd_Series = Class ''Series'' [''NDFrame'', ''object'']"

definition builtins_dict :: annotation where
  "builtins_dict = Class ''dict'' [''object'']"


datatype param_kind =
  POSITIONAL_ONLY | POSITIONAL_OR_KEYWORD | VAR_POSITIONAL | KEYWORD_ONLY | VAR_KEYWORD

text \<open>
  An exception message is an f-string: literal text and replacement fields. A field keeps
  the object that is formatted, not its rendering, which is Python's and pandas' business.
\<close>

datatype part =
    Lit string
  | Fmt val
  | FmtAnn annotation
  | FmtTypeOf val
  | FmtSet "string list"
  | FmtList "part list list"
  | FmtIndex "val list"
  | FmtParams "(string \<times> param_kind \<times> annotation) list"

type_synonym message = "part list"

datatype exn =
    InvalidDecoratorException message
  | ValueError message
  | KeyError val
  | TypeError
  | AttributeError
  | IndexError

text \<open>
  pandas gives a frame no truth value: \<^verbatim>\<open>bool(df)\<close> raises \<^verbatim>\<open>ValueError\<close>, and so does
  every use of the result of comparing a frame, which is a frame again (or the comparison
  itself raises \<^verbatim>\<open>ValueError\<close>). The message is pandas' own and is left empty here.
\<close>

definition frame_error :: exn where
  "frame_error = ValueError []"

text \<open>\<^verbatim>\<open>bool(v)\<close>, as \<^verbatim>\<open>if not fields\<close> reads it.\<close>

fun truthy :: "val \<Rightarrow> exn + bool" where
  "truthy NoneV = Inr False"
| "truthy (IntV i) = Inr (i \<noteq> 0)"
| "truthy (StrV s) = Inr (s \<noteq> [])"
| "truthy (TupleV vs) = Inr (vs \<noteq> [])"
| "truthy (ListV vs) = Inr (vs \<noteq> [])"
| "truthy (FrameV cols) = Inl frame_error"
| "truthy (ObjV s) = Inr True"

text \<open>
  \<^verbatim>\<open>bool(a == b)\<close>. A frame on either side raises. Two lists of different length are
  unequal at once, two lists of the same length and two tuples are compared item by item
  up to the first pair that is unequal or raises, and two tuples without such a pair are
  equal when they have the same length. Values of different kinds are unequal, others are
  equal when they are the same.
\<close>

fun py_eq :: "val \<Rightarrow> val \<Rightarrow> exn + bool"
  and py_eq_zip :: "val list \<Rightarrow> val list \<Rightarrow> exn + bool" where
  "py_eq (FrameV cols) b = Inl frame_error"
| "py_eq a (FrameV cols) = Inl frame_error"
| "py_eq (ListV xs) (ListV ys) =
     (if length xs \<noteq> length ys then Inr False else py_eq_zip xs ys)"
| "py_eq (TupleV xs) (TupleV ys) =
     (case py_eq_zip xs ys of
        Inl e \<Rightarrow> Inl e
      | Inr False \<Rightarrow> Inr False
      | Inr True \<Rightarrow> Inr (length xs = length ys))"
| "py_eq a b = Inr (a = b)"
| "py_eq_zip [] ys = Inr True"
| "py_eq_zip (x # xs) [] = Inr True"
| "py_eq_zip (x # xs) (y # ys) =
     (case py_eq x y of
        Inl e \<Rightarrow> Inl e
      | Inr False \<Rightarrow> Inr False
      | Inr True \<Rightarrow> py_eq_zip xs ys)"

text \<open>\<^verbatim>\<open>not b\<close> of a truth value that may have raised; \<^verbatim>\<open>a != b\<close> is \<open>py_not (py_eq a b)\<close>.\<close>

fun py_not :: "exn + bool \<Rightarrow> exn + bool" where
  "py_not (Inl e) = Inl e"
| "py_not (Inr b) = Inr (\<not> b)"

text \<open>\<^verbatim>\<open>x in xs\<close> for a list or tuple \<open>xs\<close>: the items are compared with \<open>x\<close> in order, up to
  the first that is equal or raises.\<close>

fun py_in_list :: "val \<Rightarrow> val list \<Rightarrow> exn + bool" where
  "py_in_list x [] = Inr False"
| "py_in_list x (y # ys) =
     (case py_eq y x of
        Inl e \<Rightarrow> Inl e
      | Inr True \<Rightarrow> Inr True
      | Inr False \<Rightarrow> py_in_list x ys)"

text \<open>\<^verbatim>\<open>all(p(x) for x in xs)\<close>: the items are tested in order, up to the first that is false
  or raises.\<close>

fun py_all :: "('a \<Rightarrow> exn + bool) \<Rightarrow> 'a list \<Rightarrow> exn + bool" where
  "py_all p [] = Inr True"
| "py_all p (x # xs) =
     (case p x of
        Inl e \<Rightarrow> Inl e
      | Inr False \<Rightarrow> Inr False
      | Inr True \<Rightarrow> py_all p xs)"


text \<open>
  A Python \<^verbatim>\<open>dict\<close> is the list of its items in insertion order, keys distinct.
  \<^verbatim>\<open>d[k] = v\<close> is \<^const>\<open>AList.update\<close> (an existing key keeps its place, a new one
  goes last), \<^verbatim>\<open>d.get(k)\<close> is \<^const>\<open>map_of\<close>, \<^verbatim>\<open>d.copy()\<close> is \<open>d\<close> itself.
\<close>

type_synonym ('k, 'v) dict = "('k \<times> 'v) list"

definition dict_pop :: "(string, 'v) dict \<Rightarrow> string \<Rightarrow> exn + ('v \<times> (string, 'v) dict)" where
  "dict_pop d k =
     (case map_of d k of
        None \<Rightarrow> Inl (KeyError (StrV k))
      | Some v \<Rightarrow> Inr (v, AList.delete k d))"

text \<open>\<^verbatim>\<open>d.update(e)\<close>: the items of \<open>e\<close> are stored into \<open>d\<close> one after the other.\<close>

definition dict_update :: "('k, 'v) dict \<Rightarrow> ('k, 'v) dict \<Rightarrow> ('k, 'v) dict" where
  "dict_update d e = fold (\<lambda>(k, v). AList.update k v) e d"

text \<open>\<^verbatim>\<open>kwargs.pop(key)\<close> where \<open>key\<close> is any value: the keys of \<open>kwargs\<close> are strings.\<close>

definition kwargs_pop :: "(string, val) dict \<Rightarrow> val \<Rightarrow> exn + (val \<times> (string, val) dict)" where
  "kwargs_pop kwargs key =
     (if \<not> hashable key then Inl TypeError
      else case key of
        StrV k \<Rightarrow> dict_pop kwargs k
      | _ \<Rightarrow> Inl (KeyError key))"

text \<open>A loop that appends one result per item and is left by the first exception.\<close>

fun for_each :: "('a \<Rightarrow> 'e + 'b) \<Rightarrow> 'a list \<Rightarrow> 'e + 'b list" where
  "for_each f [] = Inr []"
| "for_each f (x # xs) =
     (case f x of
        Inl e \<Rightarrow> Inl e
      | Inr y \<Rightarrow> (case for_each f xs of Inl e \<Rightarrow> Inl e | Inr ys \<Rightarrow> Inr (y # ys)))"

section \<open>Function objects and nodes\<close>

text \<open>
  What the decorators read of a function object \<^verbatim>\<open>fn\<close>: \<^verbatim>\<open>__name__\<close>, \<^verbatim>\<open>__module__\<close>,
  \<^verbatim>\<open>__doc__\<close> (\<^verbatim>\<open>None\<close> without a docstring), the bytecode \<^verbatim>\<open>__code__.co_code\<close>, the
  parameters and return annotation of \<^verbatim>\<open>inspect.signature(fn)\<close>, and the function itself
  when it is called with positional and named arguments.
\<close>

type_synonym pycallable = "val list \<Rightarrow> (string, val) dict \<Rightarrow> exn + val"

record fn_obj =
  fn_name :: string
  fn_module :: string
  fn_doc :: "string option"
  co_code :: "nat list"
  parameters :: "(string \<times> param_kind \<times> annotation) list"
  return_annotation :: annotation
  fn_call :: pycallable

datatype DependencyType = REQUIRED | OPTIONAL

datatype NodeSource = STANDARD | EXTERNAL | PRIOR_RUN

record node =
  name :: string
  type :: annotation
  documentation :: string
  callable :: pycallable
  node_source :: NodeSource
  input_types :: "(string, annotation \<times> DependencyType) dict"
  tags :: "(string, val) dict"

text \<open>
  The decorators hand the node constructor an input type either bare
  (\<^verbatim>\<open>{key: value for key, (value, _) in input_types.items()}\<close>) or as the pair of type and
  dependency kind that they read back from the \<^verbatim>\<open>input_types\<close> of a node.
\<close>

datatype input_type = Bare annotation | Dep annotation DependencyType

fun stored_input :: "input_type \<Rightarrow> annotation \<times> DependencyType" where
  "stored_input (Bare t) = (t, REQUIRED)"
| "stored_input (Dep t d) = (t, d)"

text \<open>
  Modelled from the spec: the class \<^verbatim>\<open>Node\<close> of \<^verbatim>\<open>hamilton/node.py\<close>, which is not among
  the sources. The spec's Node is a value object of name, output type, documentation,
  implementation reference, input-dependency map (name to required type) and tag map,
  constructed by decorator logic and never mutated: the constructor stores what it is
  given, a bare input type as a required dependency.
\<close>

definition Node_init ::
  "string \<Rightarrow> annotation \<Rightarrow> string \<Rightarrow> pycallable \<Rightarrow> NodeSource \<Rightarrow>
   (string, input_type) dict \<Rightarrow> (string, val) dict \<Rightarrow> node" where
  "Node_init name' typ doc_string callabl node_source' input_types' tags' =
     \<lparr>name = name', type = typ, documentation = doc_string, callable = callabl,
      node_source = node_source',
      input_types = map (\<lambda>(key, value). (key, stored_input value)) input_types',
      tags = tags'\<rparr>"

text \<open>\<^verbatim>\<open>get_default_tags\<close>: the default tag records the defining module.\<close>

definition get_default_tags :: "fn_obj \<Rightarrow> (string, val) dict" where
  "get_default_tags fn = [(''module'', StrV (fn_module fn))]"

text \<open>
  \<^verbatim>\<open>functools.partial(f, **keywords)\<close>: a call merges the bound keywords with the call's own,
  the call's winning, and passes the positional arguments on.
\<close>

definition functools_partial :: "pycallable \<Rightarrow> (string, val) dict \<Rightarrow> pycallable" where
  "functools_partial f keywords = (\<lambda>args kwargs. f args (dict_update keywords kwargs))"

section \<open>parametrized\<close>

record parametrized =
  parameter :: string
  assigned_output :: "(string \<times> string, val) dict"




definition parametrized_expand_node ::
  "parametrized \<Rightarrow> node \<Rightarrow> (string, val) dict \<Rightarrow> fn_obj \<Rightarrow> node list" where
  "parametrized_expand_node self node' config fn =
     map (\<lambda>((node_name, node_doc), value).
            Node_init node_name (type node') node_doc
              (functools_partial (callable node') [(parametrized.parameter self, value)])
              STANDARD
              (map (\<lambda>(key, (value, _)). (key, Bare value))
                 (filter (\<lambda>(key, _). key \<noteq> parametrized.parameter self) (input_types node')))
              (node.tags node'))
         (parametrized.assigned_output self)"

section \<open>Dependency substitution: parametrized-input and parameterized-inputs\<close>

record parametrized_input =
  parameter :: string
  assigned_output :: "(string, string \<times> string) dict"


text \<open>
  The wrapper \<^verbatim>\<open>new_fn\<close> has the keyword-only parameter \<^verbatim>\<open>input_column\<close>, whose default
  is the substitute dependency name of its node. A call that passes a named argument
  \<^verbatim>\<open>input_column\<close> binds that parameter instead of reaching \<^verbatim>\<open>kwargs\<close>.
\<close>

definition parametrized_input_new_fn :: "string \<Rightarrow> pycallable \<Rightarrow> string \<Rightarrow> pycallable" where
  "parametrized_input_new_fn parameter' callable' input_column args kwargs0 =
     (let (input_column', kwargs) =
            (case map_of kwargs0 ''input_column'' of
               None \<Rightarrow> (StrV input_column, kwargs0)
             | Some v \<Rightarrow> (v, AList.delete ''input_column'' kwargs0))
      in case kwargs_pop kwargs input_column' of
           Inl e \<Rightarrow> Inl e
         | Inr (v, kwargs') \<Rightarrow> callable' args (AList.update parameter' v kwargs'))"

definition parametrized_input_expand_node ::
  "parametrized_input \<Rightarrow> node \<Rightarrow> (string, val) dict \<Rightarrow> fn_obj \<Rightarrow> exn + node list" where
  "parametrized_input_expand_node self node' config fn =
     for_each (\<lambda>(input_column, (node_name, node_description)).
         let specific_inputs = map (\<lambda>(key, (value, _)). (key, Bare value)) (input_types node')
         in case dict_pop specific_inputs (parametrized_input.parameter self) of
              Inl e \<Rightarrow> Inl e
            | Inr (t, specific_inputs') \<Rightarrow>
                Inr (Node_init node_name (type node') node_description
                       (parametrized_input_new_fn (parametrized_input.parameter self)
                          (callable node') input_column)
                       STANDARD
                       (AList.update input_column t specific_inputs')
                       (node.tags node')))
       (parametrized_input.assigned_output self)"


record parameterized_inputs =
  parametrization :: "(string, (string, string) dict) dict"

definition RESERVED_KWARG :: string where
  "RESERVED_KWARG = ''output_name''"


text \<open>
  \<^verbatim>\<open>format_doc_string(self, doc, output_name, **params)\<close> is called with the mapping as
  named arguments: a mapping key \<^verbatim>\<open>self\<close>, \<^verbatim>\<open>doc\<close> or \<^verbatim>\<open>output_name\<close> gives that
  parameter a second value and the call raises \<^verbatim>\<open>TypeError\<close> before its body runs. The
  body calls \<^verbatim>\<open>doc.format\<close> with the reserved keyword and the mapping as named arguments;
  a \<open>doc\<close> that is \<^verbatim>\<open>None\<close> has no \<^verbatim>\<open>format\<close>. Python's \<^verbatim>\<open>str.format\<close> is the parameter
  \<open>str_format\<close>.
\<close>

definition format_doc_string ::
  "(string \<Rightarrow> (string, string) dict \<Rightarrow> exn + string) \<Rightarrow> string option \<Rightarrow> string \<Rightarrow>
   (string, string) dict \<Rightarrow> exn + string" where
  "format_doc_string str_format doc output_name params =
     (if list_ex (\<lambda>key. key \<in> {''self'', ''doc'', ''output_name''}) (map fst params)
      then Inl TypeError
      else case doc of
        None \<Rightarrow> Inl AttributeError
      | Some d \<Rightarrow> str_format d ((RESERVED_KWARG, output_name) # params))"

text \<open>The inner loop of \<^verbatim>\<open>expand_node\<close>:
  \<^verbatim>\<open>specific_inputs[replacement_param] = specific_inputs.pop(func_param)\<close>.\<close>

fun rename_inputs ::
  "(string, string) dict \<Rightarrow> (string, 'v) dict \<Rightarrow> exn + (string, 'v) dict" where
  "rename_inputs [] specific_inputs = Inr specific_inputs"
| "rename_inputs ((func_param, replacement_param) # mapping) specific_inputs =
     (case dict_pop specific_inputs func_param of
        Inl e \<Rightarrow> Inl e
      | Inr (t, specific_inputs') \<Rightarrow>
          rename_inputs mapping (AList.update replacement_param t specific_inputs'))"

text \<open>The loop of the wrapper:
  \<^verbatim>\<open>kwargs[func_param] = kwargs.pop(replacement_param)\<close>.\<close>

fun rename_kwargs ::
  "(string, string) dict \<Rightarrow> (string, val) dict \<Rightarrow> exn + (string, val) dict" where
  "rename_kwargs [] kwargs = Inr kwargs"
| "rename_kwargs ((func_param, replacement_param) # inputs) kwargs =
     (case dict_pop kwargs replacement_param of
        Inl e \<Rightarrow> Inl e
      | Inr (v, kwargs') \<Rightarrow> rename_kwargs inputs (AList.update func_param v kwargs'))"

text \<open>
  The wrapper of the plural form has the keyword-only parameter \<^verbatim>\<open>inputs\<close>, whose default
  is the mapping of its node. A named argument \<^verbatim>\<open>inputs\<close> binds it instead: a frame has
  \<^verbatim>\<open>items()\<close> (its columns, which are unhashable Series), no other value of the fragment
  has.
\<close>

definition parameterized_inputs_new_fn :: "pycallable \<Rightarrow> (string, string) dict \<Rightarrow> pycallable" where
  "parameterized_inputs_new_fn callable' mapping args kwargs0 =
     (case map_of kwargs0 ''inputs'' of
        None \<Rightarrow>
          (case rename_kwargs mapping kwargs0 of
             Inl e \<Rightarrow> Inl e
           | Inr kwargs \<Rightarrow> callable' args kwargs)
      | Some (FrameV []) \<Rightarrow> callable' args (AList.delete ''inputs'' kwargs0)
      | Some (FrameV (col # cols)) \<Rightarrow> Inl TypeError
      | Some v \<Rightarrow> Inl AttributeError)"

definition parameterized_inputs_expand_node ::
  "(string \<Rightarrow> (string, string) dict \<Rightarrow> exn + string) \<Rightarrow> parameterized_inputs \<Rightarrow> node \<Rightarrow>
   (string, val) dict \<Rightarrow> fn_obj \<Rightarrow> exn + node list" where
  "parameterized_inputs_expand_node str_format self node' config fn =
     for_each (\<lambda>(output_name, mapping).
         case format_doc_string str_format (Some (documentation node')) output_name mapping of
           Inl e \<Rightarrow> Inl e
         | Inr node_description \<Rightarrow>
             (case rename_inputs mapping
                     (map (\<lambda>(key, (value, _)). (key, Bare value)) (input_types node')) of
                Inl e \<Rightarrow> Inl e
              | Inr specific_inputs \<Rightarrow>
                  Inr (Node_init output_name (type node') node_description
                         (parameterized_inputs_new_fn (callable node') mapping)
                         STANDARD specific_inputs (node.tags node'))))
       (parametrization self)"

definition parameterized_inputs_validate ::
  "(string \<Rightarrow> (string, string) dict \<Rightarrow> exn + string) \<Rightarrow> parameterized_inputs \<Rightarrow> fn_obj \<Rightarrow>
   exn + unit" where
  "parameterized_inputs_validate str_format self fn =
     (let func_param_name_set = set (map fst (parameters fn));
          templating_error = InvalidDecoratorException
            [Lit ''Function docstring templating is incorrect. Please fix up the docstring '',
             Fmt (StrV (fn_module fn)), Lit ''.'', Fmt (StrV (fn_name fn)), Lit ''.'']
      in case for_each (\<lambda>(output_name, mappings).
                  format_doc_string str_format (fn_doc fn) output_name mappings)
                (parametrization self) of
           Inl (KeyError k) \<Rightarrow> Inl templating_error
         | Inl e \<Rightarrow> Inl e
         | Inr docs \<Rightarrow>
             if RESERVED_KWARG \<in> func_param_name_set
             then Inl (InvalidDecoratorException
               [Lit ''Error function '', Fmt (StrV (fn_module fn)), Lit ''.'',
                Fmt (StrV (fn_name fn)), Lit '' cannot have `'', Fmt (StrV RESERVED_KWARG),
                Lit ''` as a parameter it is reserved.''])
             else
               let missing_params =
                     remdups (filter (\<lambda>func_name. func_name \<notin> func_param_name_set)
                       (concat (map (\<lambda>(output_name, mappings). map fst mappings)
                          (parametrization self))))
               in if missing_params \<noteq> []
                  then Inl (InvalidDecoratorException
                    [Lit ''Annotation is invalid -- No such parameter(s) '',
                     FmtSet missing_params, Lit '' in function '',
                     Fmt (StrV (fn_module fn)), Lit ''.'', Fmt (StrV (fn_name fn)), Lit ''.''])
                  else Inr ())"

section \<open>Column and field extraction\<close>

text \<open>\<^verbatim>\<open>issubclass(a, b)\<close>: the first argument must be a class; the second is a class, or an
  unsubscripted alias of \<^verbatim>\<open>typing\<close> such as \<^verbatim>\<open>typing.Dict\<close> (an alias without arguments),
  which stands for its origin. A class is a subclass of itself and of its ancestors.\<close>

fun issubclass :: "annotation \<Rightarrow> annotation \<Rightarrow> exn + bool" where
  "issubclass (Class n mro) (Class m mro') = Inr (m \<in> set (n # mro))"
| "issubclass (Class n mro) (GenericAlias origin []) = issubclass (Class n mro) origin"
| "issubclass a b = Inl TypeError"


text \<open>A requested column is a name, or a tuple of name and documentation
  (\<^verbatim>\<open>Union[Tuple[str, str], str]\<close>); \<open>col_value\<close> is the Python value of the entry.\<close>

datatype column_spec = Column string | ColumnDoc string string

fun col_value :: "column_spec \<Rightarrow> val" where
  "col_value (Column c) = StrV c"
| "col_value (ColumnDoc c d) = TupleV [StrV c, StrV d]"

record extract_columns =
  columns :: "column_spec list"
  fill_with :: val



definition extract_columns_validate :: "extract_columns \<Rightarrow> fn_obj \<Rightarrow> exn + unit" where
  "extract_columns_validate self fn =
     (let output_type = return_annotation fn
      in case issubclass output_type pd_DataFrame of
           Inl e \<Rightarrow> Inl e
         | Inr True \<Rightarrow> Inr ()
         | Inr False \<Rightarrow>
             Inl (InvalidDecoratorException
               [Lit ''For extracting columns, output type must be pandas dataframe, not: '',
                FmtAnn output_type]))"

text \<open>
  The operators the generated implementations apply to the produced record:
  \<^verbatim>\<open>key in x\<close>, \<^verbatim>\<open>x[key] = v\<close> and \<^verbatim>\<open>x[key]\<close>. On a frame they look at the column labels
  (with a hashable key: the code tests membership first, which refuses any other); a list
  or tuple is searched by \<^verbatim>\<open>in\<close> and indexed by integers; a string is searched for a
  substring.
\<close>

fun starts_with :: "'a list \<Rightarrow> 'a list \<Rightarrow> bool" where
  "starts_with [] ys = True"
| "starts_with (x # xs) [] = False"
| "starts_with (x # xs) (y # ys) = (x = y \<and> starts_with xs ys)"

fun is_substring :: "'a list \<Rightarrow> 'a list \<Rightarrow> bool" where
  "is_substring xs [] = (xs = [])"
| "is_substring xs (y # ys) = (starts_with xs (y # ys) \<or> is_substring xs ys)"

text \<open>The position an integer index names in a sequence: a negative index counts from
  the end, an index outside the sequence names nothing.\<close>

definition list_index :: "'a list \<Rightarrow> int \<Rightarrow> nat option" where
  "list_index vs i =
     (if 0 \<le> i \<and> i < int (length vs) then Some (nat i)
      else if i < 0 \<and> - i \<le> int (length vs) then Some (nat (int (length vs) + i))
      else None)"

fun py_contains :: "val \<Rightarrow> val \<Rightarrow> exn + bool" where
  "py_contains (FrameV cols) key =
     (if hashable key then Inr (key \<in> set (map fst cols)) else Inl TypeError)"
| "py_contains (ListV vs) key = py_in_list key vs"
| "py_contains (TupleV vs) key = py_in_list key vs"
| "py_contains (StrV s) (StrV k) = Inr (is_substring k s)"
| "py_contains x key = Inl TypeError"

fun py_setitem :: "val \<Rightarrow> val \<Rightarrow> val \<Rightarrow> exn + val" where
  "py_setitem (FrameV cols) key v =
     (if hashable key then Inr (FrameV (AList.update key v cols)) else Inl TypeError)"
| "py_setitem (ListV vs) (IntV i) v =
     (case list_index vs i of
        None \<Rightarrow> Inl IndexError
      | Some j \<Rightarrow> Inr (ListV (vs[j := v])))"
| "py_setitem x key v = Inl TypeError"

fun py_getitem :: "val \<Rightarrow> val \<Rightarrow> exn + val" where
  "py_getitem (FrameV cols) key =
     (if hashable key
      then (case map_of cols key of None \<Rightarrow> Inl (KeyError key) | Some c \<Rightarrow> Inr c)
      else Inl TypeError)"
| "py_getitem (ListV vs) (IntV i) =
     (case list_index vs i of None \<Rightarrow> Inl IndexError | Some j \<Rightarrow> Inr (vs ! j))"
| "py_getitem (TupleV vs) (IntV i) =
     (case list_index vs i of None \<Rightarrow> Inl IndexError | Some j \<Rightarrow> Inr (vs ! j))"
| "py_getitem x key = Inl TypeError"

text \<open>The fill loop of \<^verbatim>\<open>df_generator\<close>:
  \<^verbatim>\<open>for col in self.columns: if col not in df_generated: df_generated[col] = self.fill_with\<close>.
  It looks each entry of \<^verbatim>\<open>self.columns\<close> up as it stands.\<close>

fun fill_columns :: "val \<Rightarrow> column_spec list \<Rightarrow> val \<Rightarrow> exn + val" where
  "fill_columns fill [] df_generated = Inr df_generated"
| "fill_columns fill (col # cols) df_generated =
     (case py_contains df_generated (col_value col) of
        Inl e \<Rightarrow> Inl e
      | Inr True \<Rightarrow> fill_columns fill cols df_generated
      | Inr False \<Rightarrow>
          (case py_setitem df_generated (col_value col) fill of
             Inl e \<Rightarrow> Inl e
           | Inr df' \<Rightarrow> fill_columns fill cols df'))"

definition df_generator :: "extract_columns \<Rightarrow> pycallable \<Rightarrow> pycallable" where
  "df_generator self fn args kwargs =
     (case fn args kwargs of
        Inl e \<Rightarrow> Inl e
      | Inr df_generated \<Rightarrow>
          if extract_columns.fill_with self \<noteq> NoneV
          then fill_columns (extract_columns.fill_with self) (columns self) df_generated
          else Inr df_generated)"

text \<open>
  \<^verbatim>\<open>extractor_fn(column_to_extract: str = column, **kwargs)\<close>. Its first parameter takes one
  positional argument or the named argument \<^verbatim>\<open>column_to_extract\<close>, and else its default,
  the column name of the node.
\<close>

definition extractor_body :: "string \<Rightarrow> val \<Rightarrow> (string, val) dict \<Rightarrow> exn + val" where
  "extractor_body node_name column_to_extract kwargs =
     (case map_of kwargs node_name of
        None \<Rightarrow> Inl (KeyError (StrV node_name))
      | Some df \<Rightarrow>
          (case py_contains df column_to_extract of
             Inl e \<Rightarrow> Inl e
           | Inr False \<Rightarrow>
               (case df of
                  FrameV cols \<Rightarrow>
                    Inl (InvalidDecoratorException
                      [Lit ''No such column: '', Fmt column_to_extract,
                       Lit '' produced by '', Fmt (StrV node_name),
                       Lit ''. It only produced '', FmtIndex (map fst cols)])
                | _ \<Rightarrow> Inl AttributeError)
           | Inr True \<Rightarrow> py_getitem df column_to_extract))"

definition extractor_fn :: "string \<Rightarrow> string \<Rightarrow> pycallable" where
  "extractor_fn node_name column args kwargs0 =
     (case args of
        [] \<Rightarrow>
          (case map_of kwargs0 ''column_to_extract'' of
             None \<Rightarrow> extractor_body node_name (StrV column) kwargs0
           | Some v \<Rightarrow> extractor_body node_name v (AList.delete ''column_to_extract'' kwargs0))
      | [a] \<Rightarrow>
          (case map_of kwargs0 ''column_to_extract'' of
             None \<Rightarrow> extractor_body node_name a kwargs0
           | Some v \<Rightarrow> Inl TypeError)
      | a # b # rest \<Rightarrow> Inl TypeError)"

text \<open>
  The base node is built without \<^verbatim>\<open>input_types\<close>: the constructor reads them from the
  signature of \<^verbatim>\<open>df_generator\<close>, here the parameter \<open>signature_inputs\<close>.
\<close>

definition extract_columns_expand_node ::
  "(string, input_type) dict \<Rightarrow> extract_columns \<Rightarrow> node \<Rightarrow> (string, val) dict \<Rightarrow> fn_obj \<Rightarrow>
   node list" where
  "extract_columns_expand_node signature_inputs self node' config fn =
     (let base_doc = documentation node'
      in Node_init (name node') pd_DataFrame base_doc (df_generator self (callable node'))
           STANDARD signature_inputs (node.tags node')
         # map (\<lambda>column.
                  let (column', doc_string) =
                        (case column of
                           Column c \<Rightarrow> (c, base_doc)
                         | ColumnDoc c d \<Rightarrow> (c, d))
                  in Node_init column' pd_Series doc_string
                       (extractor_fn (name node') column') STANDARD
                       [(name node', Bare pd_DataFrame)] (node.tags node'))
             (columns self))"

text \<open>\<^verbatim>\<open>extract_fields\<close>: the constructor checks the \<open>fields\<close> argument, which is any value
  or a dictionary from any key to a declared type or to some other value.\<close>

datatype field_decl = TypeDecl annotation | ValueDecl val

datatype fields_arg = NotADict val | Dict "(val, field_decl) dict"

fun is_str :: "val \<Rightarrow> bool" where
  "is_str (StrV s) = True"
| "is_str v = False"

text \<open>\<^verbatim>\<open>isinstance(field_type, type)\<close>: only a class is a type.\<close>

fun is_type :: "field_decl \<Rightarrow> bool" where
  "is_type (TypeDecl (Class n mro)) = True"
| "is_type d = False"

fun fmt_decl :: "field_decl \<Rightarrow> part" where
  "fmt_decl (TypeDecl a) = FmtAnn a"
| "fmt_decl (ValueDecl v) = Fmt v"

definition field_errors :: "val \<times> field_decl \<Rightarrow> message list" where
  "field_errors = (\<lambda>(field, field_type).
     (if \<not> is_str field
      then [[Fmt field, Lit '' is not a string. All keys must be strings.'']] else []) @
     (if \<not> is_type field_type
      then [[Fmt field, Lit '' does not declare a type. Instead it passes '',
             fmt_decl field_type, Lit ''.'']] else []))"

definition empty_fields_error :: exn where
  "empty_fields_error = InvalidDecoratorException
     [Lit ''Error an empty dict, or no dict, passed to extract_fields decorator.'']"

fun extract_fields_init :: "fields_arg \<Rightarrow> val \<Rightarrow> exn + unit" where
  "extract_fields_init (NotADict v) fill_with' =
     (case truthy v of
        Inl e \<Rightarrow> Inl e
      | Inr False \<Rightarrow> Inl empty_fields_error
      | Inr True \<Rightarrow>
          Inl (InvalidDecoratorException
            [Lit ''Error, please pass in a dict, not '', FmtTypeOf v]))"
| "extract_fields_init (Dict fields') fill_with' =
     (if fields' = [] then Inl empty_fields_error
      else let errors = concat (map field_errors fields')
           in if errors \<noteq> []
              then Inl (InvalidDecoratorException
                     [Lit ''Error, found these '', FmtList errors,
                      Lit ''. Please pass in a dict of string to types. ''])
              else Inr ())"


section \<open>does and dynamic-transform\<close>

text \<open>
  \<^verbatim>\<open>ensure_function_empty\<close> compares the bytecode of \<open>fn\<close> with the bytecode of the two
  reference functions \<^verbatim>\<open>_empty_function\<close> and \<^verbatim>\<open>_empty_function_with_docstring\<close>, which
  the interpreter compiles; the two function objects are parameters.
\<close>

definition ensure_function_empty :: "fn_obj \<Rightarrow> fn_obj \<Rightarrow> fn_obj \<Rightarrow> exn + unit" where
  "ensure_function_empty empty_function empty_function_with_docstring fn =
     (if co_code fn \<notin> {co_code empty_function, co_code empty_function_with_docstring}
      then Inl (InvalidDecoratorException
        [Lit ''Function: '', Fmt (StrV (fn_name fn)),
         Lit ('' is not empty. Must have only one line that consists of '' @
              [CHR 0x22] @ ''pass'' @ [CHR 0x22])])
      else Inr ())"

record does =
  replacing_function :: fn_obj

definition ensure_output_types_match :: "fn_obj \<Rightarrow> fn_obj \<Rightarrow> exn + unit" where
  "ensure_output_types_match fn todo =
     (let annotation_fn = return_annotation fn;
          annotation_todo = return_annotation todo
      in case issubclass annotation_todo annotation_fn of
           Inl e \<Rightarrow> Inl e
         | Inr True \<Rightarrow> Inr ()
         | Inr False \<Rightarrow>
             Inl (InvalidDecoratorException
               [Lit ''Output types: '', FmtAnn annotation_fn, Lit '' and '',
                FmtAnn annotation_todo, Lit '' are not compatible'']))"

text \<open>The unpacking \<^verbatim>\<open>(_, parameter), = parameters.items()\<close> needs exactly one item.\<close>

definition ensure_function_kwarg_only :: "fn_obj \<Rightarrow> exn + unit" where
  "ensure_function_kwarg_only fn =
     (let parameters' = parameters fn
      in if length parameters' > 1
         then Inl (InvalidDecoratorException
           [Lit ''Too many parameters -- for now @does can only use **kwarg functions. '',
            Lit ''Found params: '', FmtParams parameters'])
         else case parameters' of
           [] \<Rightarrow> Inl (ValueError [Lit ''not enough values to unpack (expected 1, got 0)''])
         | (key, kind, ann) # rest \<Rightarrow>
             if kind \<noteq> VAR_KEYWORD
             then Inl (InvalidDecoratorException
               [Lit ''Must have only one parameter, and that parameter must be a **kwargs '',
                Lit ''parameter. Instead, found: '', FmtParams [(key, kind, ann)]])
             else Inr ())"

definition does_validate :: "fn_obj \<Rightarrow> fn_obj \<Rightarrow> does \<Rightarrow> fn_obj \<Rightarrow> exn + unit" where
  "does_validate empty_function empty_function_with_docstring self fn =
     (case ensure_function_empty empty_function empty_function_with_docstring fn of
        Inl e \<Rightarrow> Inl e
      | Inr u \<Rightarrow>
          (case ensure_function_kwarg_only (replacing_function self) of
             Inl e \<Rightarrow> Inl e
           | Inr u' \<Rightarrow> ensure_output_types_match fn (replacing_function self)))"

definition does_generate_node :: "does \<Rightarrow> fn_obj \<Rightarrow> (string, val) dict \<Rightarrow> node" where
  "does_generate_node self fn config =
     Node_init (fn_name fn) (return_annotation fn)
       (case fn_doc fn of None \<Rightarrow> [] | Some d \<Rightarrow> d)
       (fn_call (replacing_function self)) STANDARD
       (map (\<lambda>(key, (kind, ann)). (key, Bare ann)) (parameters fn))
       (get_default_tags fn)"


section \<open>config\<close>

record config =
  does_resolve :: "(string, val) dict \<Rightarrow> exn + bool"
  target_name :: "string option"

text \<open>\<^verbatim>\<open>configuration.get(key)\<close>: a missing key reads as \<^verbatim>\<open>None\<close>.\<close>

definition configuration_get :: "(string, val) dict \<Rightarrow> string \<Rightarrow> val" where
  "configuration_get configuration key =
     (case map_of configuration key of None \<Rightarrow> NoneV | Some v \<Rightarrow> v)"

text \<open>\<^verbatim>\<open>sanitize_function_name\<close> lives in \<^verbatim>\<open>hamilton/function_modifiers_base.py\<close>, which is
  not among the sources; it is the parameter \<open>sanitize_function_name\<close>.\<close>

definition get_function_name :: "(string \<Rightarrow> string) \<Rightarrow> config \<Rightarrow> fn_obj \<Rightarrow> string" where
  "get_function_name sanitize_function_name self fn =
     (case target_name self of
        Some n \<Rightarrow> n
      | None \<Rightarrow> sanitize_function_name (fn_name fn))"

text \<open>
  \<^verbatim>\<open>resolve\<close> assigns to \<^verbatim>\<open>fn.__name__\<close> and returns \<open>fn\<close>: the function object it is given
  is the one it renames. The result is what the call returns (\<open>Inr None\<close> for Python's
  \<^verbatim>\<open>None\<close>) or the exception the predicate raised, then the state after the call of the
  function object passed in, then of the configuration passed in.
\<close>

definition config_resolve ::
  "(string \<Rightarrow> string) \<Rightarrow> config \<Rightarrow> fn_obj \<Rightarrow> (string, val) dict \<Rightarrow>
   (exn + fn_obj option) \<times> fn_obj \<times> (string, val) dict" where
  "config_resolve sanitize_function_name self fn configuration =
     (case does_resolve self configuration of
        Inl e \<Rightarrow> (Inl e, fn, configuration)
      | Inr False \<Rightarrow> (Inr None, fn, configuration)
      | Inr True \<Rightarrow>
          (let fn' = fn\<lparr>fn_name := get_function_name sanitize_function_name self fn\<rparr>
           in (Inr (Some fn'), fn', configuration)))"


text \<open>
  The four predicates. The keyword \<^verbatim>\<open>name\<close> of \<^verbatim>\<open>when\<close>, \<^verbatim>\<open>when_not\<close> and \<^verbatim>\<open>when_in\<close> is
  the target name and never an expectation; the other named arguments are the
  expectations. Each predicate is an \<^verbatim>\<open>all(...)\<close> over the expectations in their order.
\<close>

definition config_when :: "string option \<Rightarrow> (string, val) dict \<Rightarrow> config" where
  "config_when name' key_value_pairs =
     \<lparr>does_resolve = (\<lambda>configuration.
        py_all (\<lambda>(key, value). py_eq value (configuration_get configuration key))
          key_value_pairs),
      target_name = name'\<rparr>"

definition config_when_not :: "string option \<Rightarrow> (string, val) dict \<Rightarrow> config" where
  "config_when_not name' key_value_pairs =
     \<lparr>does_resolve = (\<lambda>configuration.
        py_all (\<lambda>(key, value). py_not (py_eq value (configuration_get configuration key)))
          key_value_pairs),
      target_name = name'\<rparr>"

definition config_when_in :: "string option \<Rightarrow> (string, val list) dict \<Rightarrow> config" where
  "config_when_in name' key_value_group_pairs =
     \<lparr>does_resolve = (\<lambda>configuration.
        py_all (\<lambda>(key, value). py_in_list (configuration_get configuration key) value)
          key_value_group_pairs),
      target_name = name'\<rparr>"

definition config_when_not_in :: "(string, val list) dict \<Rightarrow> config" where
  "config_when_not_in key_value_group_pairs =
     \<lparr>does_resolve = (\<lambda>configuration.
        py_all (\<lambda>(key, value). py_not (py_in_list (configuration_get configuration key) value))
          key_value_group_pairs),
      target_name = None\<rparr>"

section \<open>tag\<close>

record tag =
  tags :: "(string, val) dict"

definition RESERVED_TAG_NAMESPACES :: "string list" where
  "RESERVED_TAG_NAMESPACES =
     [''hamilton'', ''data_quality'', ''gdpr'', ''ccpa'', ''dag'', ''module'']"

definition tag_decorate_node :: "tag \<Rightarrow> node \<Rightarrow> node" where
  "tag_decorate_node self node' =
     (let unioned_tags = dict_update (tag.tags self) (node.tags node')
      in Node_init (name node') (type node') (documentation node') (callable node')
           (node_source node')
           (map (\<lambda>(key, (t, d)). (key, Dep t d)) (input_types node'))
           unioned_tags)"

text \<open>\<^verbatim>\<open>key.split(sep)\<close> for a separator of one character: never the empty list.\<close>

fun split_on :: "char \<Rightarrow> string \<Rightarrow> string list" where
  "split_on sep [] = [[]]"
| "split_on sep (c # cs) =
     (if c = sep then [] # split_on sep cs
      else (case split_on sep cs of
              [] \<Rightarrow> [[c]]
            | w # ws \<Rightarrow> (c # w) # ws))"

text \<open>Python's \<^verbatim>\<open>str.isidentifier\<close> is the parameter \<open>isidentifier\<close>.\<close>

definition key_allowed :: "(string \<Rightarrow> bool) \<Rightarrow> string \<Rightarrow> bool" where
  "key_allowed isidentifier key =
     (let key_components = split_on CHR ''.'' key
      in if length key_components = 0 then False
         else if hd key_components \<in> set RESERVED_TAG_NAMESPACES then False
         else list_all isidentifier key_components)"

definition value_allowed :: "val \<Rightarrow> bool" where
  "value_allowed value = is_str value"

text \<open>
  \<^verbatim>\<open>validate\<close> collects the offending pairs in a set, which hashes each pair and so the
  value; the set is listed here in the order the pairs were added (Python leaves the order
  of a set open).
\<close>

fun collect_bad_tags ::
  "(string \<Rightarrow> bool) \<Rightarrow> (string, val) dict \<Rightarrow> (string \<times> val) list \<Rightarrow> exn + (string \<times> val) list" where
  "collect_bad_tags isidentifier [] bad_tags = Inr bad_tags"
| "collect_bad_tags isidentifier ((key, value) # rest) bad_tags =
     (if (\<not> key_allowed isidentifier key) \<or> (\<not> value_allowed value)
      then (if hashable value
            then collect_bad_tags isidentifier rest
                   (if (key, value) \<in> set bad_tags then bad_tags else bad_tags @ [(key, value)])
            else Inl TypeError)
      else collect_bad_tags isidentifier rest bad_tags)"

fun join_parts :: "string \<Rightarrow> message list \<Rightarrow> message" where
  "join_parts sep [] = []"
| "join_parts sep [m] = m"
| "join_parts sep (m # m' # ms) = m @ [Lit sep] @ join_parts sep (m' # ms)"

definition tag_validate :: "(string \<Rightarrow> bool) \<Rightarrow> tag \<Rightarrow> fn_obj \<Rightarrow> exn + unit" where
  "tag_validate isidentifier self fn =
     (case collect_bad_tags isidentifier (tag.tags self) [] of
        Inl e \<Rightarrow> Inl e
      | Inr bad_tags \<Rightarrow>
          if bad_tags \<noteq> []
          then (let bad_tags_formatted =
                      join_parts '',''
                        (map (\<lambda>(key, value). [Fmt (StrV key), Lit ''='', Fmt value]) bad_tags)
                in Inl (InvalidDecoratorException
                     ([Lit ''The following tags are invalid as tags: ''] @ bad_tags_formatted @
                      [Lit '' Tag keys can be split by ., to represent a hierarchy, but each element of the hierarchy must be a valid python identifier. Paths components also cannot be empty. The value can be anything. Note that the following top-level prefixes are reserved as well: '',
                       Fmt (ListV (map StrV RESERVED_TAG_NAMESPACES))])))
          else Inr ())"

section \<open>Error kinds\<close>




section \<open>Example inputs\<close>

text \<open>A function \<^verbatim>\<open>signups__us(x: int, y: int) -> tuple\<close> that returns the pair of its
  arguments, and the node the default generation makes of it.\<close>

definition int_class :: annotation where
  "int_class = Class ''int'' [''object'']"

definition example_fn :: fn_obj where
  "example_fn =
     \<lparr>fn_name = ''signups__us'', fn_module = ''my_functions'',
      fn_doc = Some ''Signups of {output_name}.'',
      co_code = [124, 0, 124, 1, 102, 2, 83, 0],
      parameters = [(''x'', POSITIONAL_OR_KEYWORD, int_class),
                    (''y'', POSITIONAL_OR_KEYWORD, int_class)],
      return_annotation = Class ''tuple'' [''object''],
      fn_call = (\<lambda>args kwargs.
         case (map_of kwargs ''x'', map_of kwargs ''y'') of
           (Some a, Some b) \<Rightarrow> Inr (TupleV [a, b])
         | _ \<Rightarrow> Inl TypeError)\<rparr>"

definition example_node :: node where
  "example_node =
     \<lparr>name = ''signups'', type = Class ''tuple'' [''object''],
      documentation = ''Signups of {output_name}.'',
      callable = fn_call example_fn, node_source = STANDARD,
      input_types = [(''x'', (int_class, REQUIRED)), (''y'', (int_class, OPTIONAL))],
      tags = [(''module'', StrV ''my_functions'')]\<rparr>"

text \<open>\<^verbatim>\<open>@parametrized(parameter='y', assigned_output={('signups_1', 'one'): 1,
  ('signups_2', 'two'): 2})\<close>.\<close>

definition example_parametrized :: parametrized where
  "example_parametrized =
     \<lparr>parametrized.parameter = ''y'',
      parametrized.assigned_output = [((''signups_1'', ''one''), IntV 1), ((''signups_2'', ''two''), IntV 2)]\<rparr>"

text \<open>A function \<^verbatim>\<open>df() -> pd.DataFrame\<close> that returns a frame with the one column \<open>b\<close>, its
  node, and \<^verbatim>\<open>@extract_columns(('a', 'the a column'), fill_with=0)\<close>.\<close>

definition example_frame :: val where
  "example_frame = FrameV [(StrV ''b'', ListV [IntV 1, IntV 2])]"

definition example_df_fn :: fn_obj where
  "example_df_fn =
     \<lparr>fn_name = ''df'', fn_module = ''my_functions'', fn_doc = Some ''A frame.'',
      co_code = [116, 0, 83, 0], parameters = [], return_annotation = pd_DataFrame,
      fn_call = (\<lambda>args kwargs. Inr example_frame)\<rparr>"

definition example_df_node :: node where
  "example_df_node =
     \<lparr>name = ''df'', type = pd_DataFrame, documentation = ''A frame.'',
      callable = fn_call example_df_fn, node_source = STANDARD, input_types = [],
      tags = [(''module'', StrV ''my_functions'')]\<rparr>"

definition example_extract_columns :: extract_columns where
  "example_extract_columns =
     \<lparr>columns = [ColumnDoc ''a'' ''the a column''], extract_columns.fill_with = IntV 0\<rparr>"

text \<open>
  The two reference functions of \<^verbatim>\<open>ensure_function_empty\<close> with the bytecode CPython 3.6 to
  3.10 compiles them to (\<^verbatim>\<open>LOAD_CONST 0; RETURN_VALUE\<close>, and \<^verbatim>\<open>LOAD_CONST 1; RETURN_VALUE\<close>
  with a docstring, which is constant 0); the function \<^verbatim>\<open>def five() -> int: return 5\<close>,
  whose constants are \<^verbatim>\<open>(None, 5)\<close> and whose bytecode is \<^verbatim>\<open>LOAD_CONST 1; RETURN_VALUE\<close>;
  and a replacement \<^verbatim>\<open>def replacement(**kwargs) -> int\<close>.
\<close>

definition example_empty_function :: fn_obj where
  "example_empty_function =
     \<lparr>fn_name = ''_empty_function'', fn_module = ''hamilton.function_modifiers'',
      fn_doc = None, co_code = [100, 0, 83, 0], parameters = [],
      return_annotation = inspect_empty, fn_call = (\<lambda>args kwargs. Inr NoneV)\<rparr>"

definition example_empty_function_with_docstring :: fn_obj where
  "example_empty_function_with_docstring =
     \<lparr>fn_name = ''_empty_function_with_docstring'',
      fn_module = ''hamilton.function_modifiers'',
      fn_doc = Some ''Docstring for an empty function'', co_code = [100, 1, 83, 0],
      parameters = [], return_annotation = inspect_empty,
      fn_call = (\<lambda>args kwargs. Inr NoneV)\<rparr>"

definition example_five :: fn_obj where
  "example_five =
     \<lparr>fn_name = ''five'', fn_module = ''my_functions'', fn_doc = None,
      co_code = [100, 1, 83, 0], parameters = [], return_annotation = int_class,
      fn_call = (\<lambda>args kwargs. Inr (IntV 5))\<rparr>"

definition example_replacement :: fn_obj where
  "example_replacement =
     \<lparr>fn_name = ''replacement'', fn_module = ''my_functions'', fn_doc = None,
      co_code = [100, 1, 83, 0], parameters = [(''kwargs'', VAR_KEYWORD, inspect_empty)],
      return_annotation = int_class, fn_call = (\<lambda>args kwargs. Inr (IntV 0))\<rparr>"

text \<open>\<^verbatim>\<open>str.format\<close> on docstrings without replacement fields: the docstring itself.\<close>

definition plain_format :: "string \<Rightarrow> (string, string) dict \<Rightarrow> exn + string" where
  "plain_format doc kwargs = Inr doc"

text \<open>\<^verbatim>\<open>@parameterized_inputs(signups_a={'x': 'a'})\<close> and \<^verbatim>\<open>@tag(owner='data', **{'hamilton.x': 1})\<close>
  with a model of \<^verbatim>\<open>isidentifier\<close> that accepts lower-case letters and underscores.\<close>

definition example_parameterized_inputs :: parameterized_inputs where
  "example_parameterized_inputs = \<lparr>parametrization = [(''signups_a'', [(''x'', ''a'')])]\<rparr>"



text \<open>\<^verbatim>\<open>@parametrized_input(parameter='x', variable_inputs={'a': ('signups_a', 'Signups of a.')})\<close>,
  the same with the substitute named \<^verbatim>\<open>input_column\<close>, and with the substitute \<open>x\<close> itself;
  \<^verbatim>\<open>@parameterized_inputs(signups_z={'x': 'y', 'y': 'z'})\<close> and
  \<^verbatim>\<open>@parameterized_inputs(signups_a={'x': 'a', 'y': 'a'})\<close>.\<close>

definition example_parametrized_input :: parametrized_input where
  "example_parametrized_input =
     \<lparr>parametrized_input.parameter = ''x'',
      parametrized_input.assigned_output = [(''a'', (''signups_a'', ''Signups of a.''))]\<rparr>"

definition captured_parametrized_input :: parametrized_input where
  "captured_parametrized_input =
     \<lparr>parametrized_input.parameter = ''x'',
      parametrized_input.assigned_output =
        [(''input_column'', (''signups_a'', ''Signups of a.''))]\<rparr>"

definition same_name_parametrized_input :: parametrized_input where
  "same_name_parametrized_input =
     \<lparr>parametrized_input.parameter = ''x'',
      parametrized_input.assigned_output = [(''x'', (''signups_a'', ''Signups of a.''))]\<rparr>"

definition chained_parameterized_inputs :: parameterized_inputs where
  "chained_parameterized_inputs =
     \<lparr>parametrization = [(''signups_z'', [(''x'', ''y''), (''y'', ''z'')])]\<rparr>"

definition shared_parameterized_inputs :: parameterized_inputs where
  "shared_parameterized_inputs =
     \<lparr>parametrization = [(''signups_a'', [(''x'', ''a''), (''y'', ''a'')])]\<rparr>"

section \<open>Resolution by configuration\<close>







text \<open>A frame under a compared key makes the predicate, and with it \<^verbatim>\<open>resolve\<close>, raise.\<close>

lemma config_when_frame_raises:
  "fst (config_resolve sanitize_function_name (config_when name' [(key, value)]) fn
          [(key, FrameV cols)]) = Inl frame_error"
  by (cases "value") (simp_all add: config_resolve_def config_when_def configuration_get_def)




text \<open>
  Claim C10 says that \<^verbatim>\<open>resolve\<close> leaves the function it is given unchanged. The code
  assigns the resolved name to \<^verbatim>\<open>fn.__name__\<close> of that very object (its comment asks for a
  copy): after resolving \<^verbatim>\<open>signups__us\<close> under \<^verbatim>\<open>config.when(name='signups', region='us')\<close>
  the function passed in is named \<^verbatim>\<open>signups\<close>. The configuration is left as it was.
\<close>

theorem config_resolve_renames_input:
  "fn_name example_fn = ''signups__us''
   \<and> fn_name (fst (snd (config_resolve sanitize_function_name
        (config_when (Some ''signups'') [(''region'', StrV ''us'')]) example_fn
        [(''region'', StrV ''us'')]))) = ''signups''
   \<and> snd (snd (config_resolve sanitize_function_name
        (config_when (Some ''signups'') [(''region'', StrV ''us'')]) example_fn
        [(''region'', StrV ''us'')])) = [(''region'', StrV ''us'')]"
  by (simp add: config_resolve_def config_when_def configuration_get_def get_function_name_def
      example_fn_def Let_def)

section \<open>Fixed-value expansion\<close>

lemma map_of_fold_update:
  "distinct (map fst e) \<Longrightarrow>
   map_of (fold (\<lambda>(k, v). AList.update k v) e d) y
     = (case map_of e y of Some v \<Rightarrow> Some v | None \<Rightarrow> map_of d y)"
proof (induction e arbitrary: d)
  case Nil
  show ?case by simp
next
  case (Cons x e)
  obtain k v where x: "x = (k, v)" by (cases x)
  from Cons.prems x have k: "map_of e k = None" and d: "distinct (map fst e)"
    by (auto simp: map_of_eq_None_iff)
  have "map_of (fold (\<lambda>(k, v). AList.update k v) e (AList.update k v d)) y
          = (case map_of e y of Some v \<Rightarrow> Some v | None \<Rightarrow> map_of (AList.update k v d) y)"
    using d by (rule Cons.IH)
  also have "\<dots> = (case map_of ((k, v) # e) y of Some v \<Rightarrow> Some v | None \<Rightarrow> map_of d y)"
    using k by (cases "y = k") (simp_all add: update_conv' split: option.splits)
  finally show ?case by (simp only: x fold_Cons comp_apply prod.case)
qed

lemma map_of_dict_update:
  "distinct (map fst e) \<Longrightarrow> map_of (dict_update d e) = map_of d ++ map_of e"
  by (rule ext) (simp add: dict_update_def map_of_fold_update map_add_def)

lemma bare_inputs_without:
  "map ((\<lambda>(key, (t, d)). (key, t)) \<circ>
        ((\<lambda>(key, value). (key, stored_input value)) \<circ> (\<lambda>(key, (value, _)). (key, Bare value))))
     (filter (\<lambda>(key, _). key \<noteq> p) its)
   = filter (\<lambda>(key, t). key \<noteq> p) (map (\<lambda>(key, (t, d)). (key, t)) its)"
  by (induction its) auto

lemma bare_inputs_keys:
  "map fst (map (\<lambda>(key, value). (key, stored_input value))
        (map (\<lambda>(key, (value, _)). (key, Bare value)) its)) = map fst its"
  by (induction its) auto

text \<open>
  Claim C2. \<^verbatim>\<open>parametrized.expand_node\<close> produces exactly one node per entry
  \<^verbatim>\<open>(name, doc) -> value\<close> of the assignment map, in the order of the entries. The node of an
  entry has the entry's name and documentation and the type of the original node; its
  input-dependency map lacks the target parameter and otherwise lists the names and types
  of the original node's inputs, unchanged and in their order; and a call of its
  implementation is a call of the original implementation on the named arguments of the
  call with the target parameter bound to the entry's value (partial application).
\<close>

theorem parametrized_expand_node_correct:
  "length (parametrized_expand_node self node' config fn)
     = length (parametrized.assigned_output self)
   \<and> (\<forall>i < length (parametrized.assigned_output self).
        name (parametrized_expand_node self node' config fn ! i)
          = fst (fst (parametrized.assigned_output self ! i))
      \<and> documentation (parametrized_expand_node self node' config fn ! i)
          = snd (fst (parametrized.assigned_output self ! i))
      \<and> type (parametrized_expand_node self node' config fn ! i) = type node'
      \<and> parametrized.parameter self
          \<notin> set (map fst (input_types (parametrized_expand_node self node' config fn ! i)))
      \<and> map (\<lambda>(key, (t, d)). (key, t))
            (input_types (parametrized_expand_node self node' config fn ! i))
          = filter (\<lambda>(key, t). key \<noteq> parametrized.parameter self)
              (map (\<lambda>(key, (t, d)). (key, t)) (input_types node'))
      \<and> (\<forall>args kwargs. distinct (map fst kwargs) \<longrightarrow> (\<exists>kwargs'.
            callable (parametrized_expand_node self node' config fn ! i) args kwargs
              = callable node' args kwargs'
          \<and> map_of kwargs'
              = [parametrized.parameter self \<mapsto> snd (parametrized.assigned_output self ! i)]
                ++ map_of kwargs)))"
proof (intro conjI allI impI)
  show "length (parametrized_expand_node self node' config fn)
          = length (parametrized.assigned_output self)"
    by (simp add: parametrized_expand_node_def)
next
  fix i assume i: "i < length (parametrized.assigned_output self)"
  obtain node_name node_doc v
    where e: "parametrized.assigned_output self ! i = ((node_name, node_doc), v)"
    by (metis surj_pair)
  let ?n = "parametrized_expand_node self node' config fn ! i"
  have n: "?n = Node_init node_name (type node') node_doc
              (functools_partial (callable node') [(parametrized.parameter self, v)])
              STANDARD
              (map (\<lambda>(key, (value, _)). (key, Bare value))
                 (filter (\<lambda>(key, _). key \<noteq> parametrized.parameter self) (input_types node')))
              (node.tags node')"
    using i e by (simp add: parametrized_expand_node_def)
  show "name ?n = fst (fst (parametrized.assigned_output self ! i))"
    by (simp add: n e Node_init_def)
  show "documentation ?n = snd (fst (parametrized.assigned_output self ! i))"
    by (simp add: n e Node_init_def)
  show "type ?n = type node'"
    by (simp add: n Node_init_def)
  have keys: "map fst (input_types ?n)
                = map fst (filter (\<lambda>(key, _). key \<noteq> parametrized.parameter self)
                    (input_types node'))"
    by (simp add: n Node_init_def bare_inputs_keys)
  show "parametrized.parameter self \<notin> set (map fst (input_types ?n))"
    unfolding keys by auto
  show "map (\<lambda>(key, (t, d)). (key, t)) (input_types ?n)
          = filter (\<lambda>(key, t). key \<noteq> parametrized.parameter self)
              (map (\<lambda>(key, (t, d)). (key, t)) (input_types node'))"
    by (simp add: n Node_init_def bare_inputs_without)
  fix args and kwargs :: "(string, val) dict"
  assume dk: "distinct (map fst kwargs)"
  have s: "snd (parametrized.assigned_output self ! i) = v"
    by (simp add: e)
  have c1: "callable ?n args kwargs
              = callable node' args (dict_update [(parametrized.parameter self, v)] kwargs)"
    by (simp add: n Node_init_def functools_partial_def)
  have c2: "map_of (dict_update [(parametrized.parameter self, v)] kwargs)
              = [parametrized.parameter self \<mapsto> v] ++ map_of kwargs"
    using dk by (simp add: map_of_dict_update)
  show "\<exists>kwargs'. callable ?n args kwargs = callable node' args kwargs'
          \<and> map_of kwargs'
              = [parametrized.parameter self \<mapsto> snd (parametrized.assigned_output self ! i)]
                ++ map_of kwargs"
    unfolding s using c1 c2 by blast
qed

theorem parametrized_expand_node_correct_witness:
  "length (parametrized_expand_node example_parametrized example_node [] example_fn) = 2
   \<and> name (parametrized_expand_node example_parametrized example_node [] example_fn ! 1)
       = ''signups_2''
   \<and> map (\<lambda>(key, (t, d)). (key, t))
        (input_types (parametrized_expand_node example_parametrized example_node [] example_fn ! 1))
       = [(''x'', int_class)]
   \<and> callable (parametrized_expand_node example_parametrized example_node [] example_fn ! 1)
        [] [(''x'', IntV 7)]
       = Inr (TupleV [IntV 7, IntV 2])"
proof -
  have l: "(1::nat) < length (parametrized.assigned_output example_parametrized)"
    by (simp add: example_parametrized_def)
  note t = parametrized_expand_node_correct [of example_parametrized example_node "[]" example_fn]
  from t have a: "length (parametrized_expand_node example_parametrized example_node [] example_fn) = 2"
    by (simp add: example_parametrized_def)
  note t1 = t [THEN conjunct2, rule_format, OF l]
  from t1
  have b: "name (parametrized_expand_node example_parametrized example_node [] example_fn ! 1)
             = ''signups_2''"
    and c: "map (\<lambda>(key, (t, d)). (key, t))
        (input_types (parametrized_expand_node example_parametrized example_node [] example_fn ! 1))
       = [(''x'', int_class)]"
    by (simp_all add: example_parametrized_def example_node_def)
  have dk: "distinct (map fst [(''x'', IntV 7)])"
    by simp
  from t1 [THEN conjunct2, THEN conjunct2, THEN conjunct2, THEN conjunct2, THEN conjunct2,
           rule_format, OF dk, of "[]"]
  obtain kwargs' where
    call: "callable (parametrized_expand_node example_parametrized example_node [] example_fn ! 1)
             [] [(''x'', IntV 7)] = callable example_node [] kwargs'"
    and kw: "map_of kwargs'
               = [parametrized.parameter example_parametrized
                    \<mapsto> snd (parametrized.assigned_output example_parametrized ! 1)]
                 ++ map_of [(''x'', IntV 7)]"
    by blast
  from kw have "map_of kwargs' ''x'' = Some (IntV 7)" and "map_of kwargs' ''y'' = Some (IntV 2)"
    by (simp_all add: example_parametrized_def)
  then have "callable example_node [] kwargs' = Inr (TupleV [IntV 7, IntV 2])"
    by (simp add: example_node_def example_fn_def)
  with call
  have d: "callable (parametrized_expand_node example_parametrized example_node [] example_fn ! 1)
             [] [(''x'', IntV 7)] = Inr (TupleV [IntV 7, IntV 2])"
    by simp
  from a b c d show ?thesis by simp
qed

section \<open>Tagging\<close>

lemma stored_dep_inputs:
  "map ((\<lambda>(key, value). (key, stored_input value)) \<circ> (\<lambda>(key, (t, d)). (key, Dep t d))) its = its"
  by (induction its) auto

lemma distinct_dict_update:
  "distinct (map fst d) \<Longrightarrow> distinct (map fst (dict_update d e))"
proof -
  have "distinct (map fst d) \<Longrightarrow> distinct (map fst (fold (\<lambda>(k, v). AList.update k v) e d))" for d
  proof (induction e arbitrary: d)
    case Nil
    then show ?case by simp
  next
    case (Cons x e)
    obtain k v where x: "x = (k, v)" by (cases x)
    from Cons.prems have "distinct (map fst (AList.update k v d))"
      by (rule distinct_update)
    then show ?case by (simp add: x Cons.IH)
  qed
  then show "distinct (map fst d) \<Longrightarrow> ?thesis" by (simp add: dict_update_def)
qed

lemma tags_of_tag_decorate_node:
  "distinct (map fst (node.tags n)) \<Longrightarrow>
   map_of (node.tags (tag_decorate_node s n)) key
     = (case map_of (node.tags n) key of
          Some v \<Rightarrow> Some v
        | None \<Rightarrow> map_of (tag.tags s) key)"
  by (simp add: tag_decorate_node_def Node_init_def Let_def map_of_dict_update map_add_def)

text \<open>
  Claim C4. \<^verbatim>\<open>tag.decorate_node\<close> returns a node with the name, output type,
  documentation, implementation, node source and input-dependency map of its input. A key
  of its tag map has the value the node's existing tags give it, and where they give none,
  the value the decorator's tags give it: the map is the union, the node's own tags
  winning (the node's tags are a dictionary: no key twice). Hence on a node that has no
  tag \<open>x\<close> yet, the outer \<^verbatim>\<open>tag(x='1')\<close> applied after the inner \<^verbatim>\<open>tag(x='2')\<close> leaves
  \<open>x\<close> at \<open>'2'\<close>.
\<close>

theorem tag_decorate_node_correct:
  assumes "distinct (map fst (node.tags node'))"
  shows "name (tag_decorate_node self node') = name node'
   \<and> type (tag_decorate_node self node') = type node'
   \<and> documentation (tag_decorate_node self node') = documentation node'
   \<and> callable (tag_decorate_node self node') = callable node'
   \<and> node_source (tag_decorate_node self node') = node_source node'
   \<and> input_types (tag_decorate_node self node') = input_types node'
   \<and> (\<forall>key. map_of (node.tags (tag_decorate_node self node')) key
          = (case map_of (node.tags node') key of
               Some v \<Rightarrow> Some v
             | None \<Rightarrow> map_of (tag.tags self) key))
   \<and> (map_of (node.tags node') ''x'' = None \<longrightarrow>
        map_of (node.tags (tag_decorate_node \<lparr>tag.tags = [(''x'', StrV ''1'')]\<rparr>
                  (tag_decorate_node \<lparr>tag.tags = [(''x'', StrV ''2'')]\<rparr> node'))) ''x''
          = Some (StrV ''2''))"
proof (intro conjI allI impI)
  show "input_types (tag_decorate_node self node') = input_types node'"
    by (simp add: tag_decorate_node_def Node_init_def Let_def stored_dep_inputs)
next
  fix key
  show "map_of (node.tags (tag_decorate_node self node')) key
          = (case map_of (node.tags node') key of
               Some v \<Rightarrow> Some v
             | None \<Rightarrow> map_of (tag.tags self) key)"
    using assms by (rule tags_of_tag_decorate_node)
next
  assume x: "map_of (node.tags node') ''x'' = None"
  let ?inner = "tag_decorate_node \<lparr>tag.tags = [(''x'', StrV ''2'')]\<rparr> node'"
  have d: "distinct (map fst (node.tags ?inner))"
    by (simp add: tag_decorate_node_def Node_init_def Let_def distinct_dict_update)
  have "map_of (node.tags ?inner) ''x'' = Some (StrV ''2'')"
    using x by (simp add: tags_of_tag_decorate_node [OF assms])
  then show "map_of (node.tags (tag_decorate_node \<lparr>tag.tags = [(''x'', StrV ''1'')]\<rparr> ?inner)) ''x''
          = Some (StrV ''2'')"
    by (simp add: tags_of_tag_decorate_node [OF d])
qed (simp_all add: tag_decorate_node_def Node_init_def Let_def)

theorem tag_decorate_node_correct_witness:
  "distinct (map fst (node.tags example_node))
   \<and> map_of (node.tags example_node) ''x'' = None
   \<and> map_of (node.tags (tag_decorate_node \<lparr>tag.tags = [(''x'', StrV ''1'')]\<rparr>
                (tag_decorate_node \<lparr>tag.tags = [(''x'', StrV ''2'')]\<rparr> example_node))) ''x''
        = Some (StrV ''2'')
   \<and> map_of (node.tags (tag_decorate_node \<lparr>tag.tags = [(''module'', StrV ''other'')]\<rparr>
                example_node)) ''module''
        = Some (StrV ''my_functions'')"
proof -
  have d: "distinct (map fst (node.tags example_node))"
    by (simp add: example_node_def)
  have h: "map_of (node.tags example_node) ''x'' = None"
    by (simp add: example_node_def)
  note t = tag_decorate_node_correct
             [OF d, of "\<lparr>tag.tags = [(''module'', StrV ''other'')]\<rparr>"]
  from t [THEN conjunct2, THEN conjunct2, THEN conjunct2, THEN conjunct2, THEN conjunct2,
          THEN conjunct2, THEN conjunct2, rule_format, OF h]
  have a: "map_of (node.tags (tag_decorate_node \<lparr>tag.tags = [(''x'', StrV ''1'')]\<rparr>
                (tag_decorate_node \<lparr>tag.tags = [(''x'', StrV ''2'')]\<rparr> example_node))) ''x''
        = Some (StrV ''2'')" .
  from t [THEN conjunct2, THEN conjunct2, THEN conjunct2, THEN conjunct2, THEN conjunct2,
          THEN conjunct2, THEN conjunct1, rule_format, of "''module''"]
  have b: "map_of (node.tags (tag_decorate_node \<lparr>tag.tags = [(''module'', StrV ''other'')]\<rparr>
                example_node)) ''module''
        = Some (StrV ''my_functions'')"
    by (simp add: example_node_def)
  from d h a b show ?thesis by simp
qed

section \<open>The kind of validation failures\<close>








text \<open>Handed a frame, the constructor fails at \<^verbatim>\<open>if not fields\<close> with pandas' error.\<close>

lemma extract_fields_init_frame:
  "extract_fields_init (NotADict (FrameV cols)) fill = Inl frame_error"
  by simp











lemma collect_bad_tags_hashable:
  "list_all (\<lambda>(key, value). hashable value) tags' \<Longrightarrow>
   \<exists>bad. collect_bad_tags isidentifier tags' acc = Inr bad"
proof (induction tags' arbitrary: acc)
  case Nil
  then show ?case by simp
next
  case (Cons t tags')
  obtain key v where t: "t = (key, v)" by (cases t)
  from Cons.prems t have h: "hashable v" and rest: "list_all (\<lambda>(key, value). hashable value) tags'"
    by simp_all
  from Cons.IH [OF rest] h show ?case
    by (simp add: t)
qed



text \<open>A target parameter named \<^verbatim>\<open>doc\<close> makes \<^verbatim>\<open>validate\<close> fail with \<^verbatim>\<open>TypeError\<close>, a function
  without a docstring with \<^verbatim>\<open>AttributeError\<close>.\<close>

lemma parameterized_inputs_validate_target_named_doc:
  "parameterized_inputs_validate str_format
     \<lparr>parametrization = [(''signups_a'', [(''doc'', ''a'')])]\<rparr> fn = Inl TypeError"
  by (simp add: parameterized_inputs_validate_def format_doc_string_def Let_def)

lemma parameterized_inputs_validate_no_docstring:
  "fn_doc fn = None \<Longrightarrow>
   parameterized_inputs_validate str_format
     \<lparr>parametrization = [(''signups_a'', [(''x'', ''a'')])]\<rparr> fn = Inl AttributeError"
  by (simp add: parameterized_inputs_validate_def format_doc_string_def Let_def)





section \<open>Column extraction\<close>

text \<open>What the generated implementations do on a frame: the extractor of a column the frame
  lacks raises the build-time error, its message naming the column and the columns present;
  the extractor of a column the frame has returns it; and the fill loop inserts every
  column that is requested by its bare name and absent.\<close>

lemma extractor_fn_missing_column:
  assumes "map_of kwargs node_name = Some (FrameV cols)"
    and "''column_to_extract'' \<notin> set (map fst kwargs)"
    and "StrV column \<notin> set (map fst cols)"
  shows "extractor_fn node_name column [] kwargs
           = Inl (InvalidDecoratorException
                   [Lit ''No such column: '', Fmt (StrV column), Lit '' produced by '',
                    Fmt (StrV node_name), Lit ''. It only produced '', FmtIndex (map fst cols)])"
proof -
  from assms(2) have "map_of kwargs ''column_to_extract'' = None"
    by (simp add: map_of_eq_None_iff)
  with assms(1,3) show ?thesis
    by (simp add: extractor_fn_def extractor_body_def)
qed

lemma extractor_fn_present_column:
  assumes "map_of kwargs node_name = Some (FrameV cols)"
    and "''column_to_extract'' \<notin> set (map fst kwargs)"
    and "map_of cols (StrV column) = Some c"
  shows "extractor_fn node_name column [] kwargs = Inr c"
proof -
  from assms(2) have "map_of kwargs ''column_to_extract'' = None"
    by (simp add: map_of_eq_None_iff)
  moreover from assms(3) have "StrV column \<in> set (map fst cols)"
    by (metis map_of_eq_None_iff option.distinct(1) set_map)
  ultimately show ?thesis
    using assms(1,3) by (simp add: extractor_fn_def extractor_body_def)
qed

lemma fill_columns_named:
  "\<exists>cols'. fill_columns fill (map Column names) (FrameV cols) = Inr (FrameV cols')
     \<and> (\<forall>label. map_of cols' label
           = (case map_of cols label of
                Some c \<Rightarrow> Some c
              | None \<Rightarrow> if label \<in> StrV ` set names then Some fill else None))"
proof (induction names arbitrary: cols)
  case Nil
  show ?case by (simp split: option.splits)
next
  case (Cons n names)
  show ?case
  proof (cases "StrV n \<in> set (map fst cols)")
    case True
    then have present: "map_of cols (StrV n) \<noteq> None"
      by (simp add: map_of_eq_None_iff)
    from Cons.IH [of cols] obtain cols' where
      r: "fill_columns fill (map Column names) (FrameV cols) = Inr (FrameV cols')"
      and m: "\<forall>label. map_of cols' label
           = (case map_of cols label of
                Some c \<Rightarrow> Some c
              | None \<Rightarrow> if label \<in> StrV ` set names then Some fill else None)"
      by blast
    from True r have "fill_columns fill (map Column (n # names)) (FrameV cols) = Inr (FrameV cols')"
      by simp
    moreover from m present have "\<forall>label. map_of cols' label
           = (case map_of cols label of
                Some c \<Rightarrow> Some c
              | None \<Rightarrow> if label \<in> StrV ` set (n # names) then Some fill else None)"
      by (auto split: option.splits)
    ultimately show ?thesis by blast
  next
    case False
    then have absent: "map_of cols (StrV n) = None"
      by (simp add: map_of_eq_None_iff)
    let ?cols1 = "AList.update (StrV n) fill cols"
    from Cons.IH [of ?cols1] obtain cols' where
      r: "fill_columns fill (map Column names) (FrameV ?cols1) = Inr (FrameV cols')"
      and m: "\<forall>label. map_of cols' label
           = (case map_of ?cols1 label of
                Some c \<Rightarrow> Some c
              | None \<Rightarrow> if label \<in> StrV ` set names then Some fill else None)"
      by blast
    from False r have "fill_columns fill (map Column (n # names)) (FrameV cols) = Inr (FrameV cols')"
      by simp
    moreover from m absent have "\<forall>label. map_of cols' label
           = (case map_of cols label of
                Some c \<Rightarrow> Some c
              | None \<Rightarrow> if label \<in> StrV ` set (n # names) then Some fill else None)"
      by (auto simp: update_conv' split: option.splits)
    ultimately show ?thesis by blast
  qed
qed

lemma df_generator_fills_named_columns:
  assumes "extract_columns.fill_with self \<noteq> NoneV"
    and "columns self = map Column names"
    and "fn args kwargs = Inr (FrameV cols)"
  shows "\<exists>cols'. df_generator self fn args kwargs = Inr (FrameV cols')
     \<and> (\<forall>label. map_of cols' label
           = (case map_of cols label of
                Some c \<Rightarrow> Some c
              | None \<Rightarrow> if label \<in> StrV ` set names
                         then Some (extract_columns.fill_with self) else None))"
  using assms fill_columns_named [of "extract_columns.fill_with self" names cols]
  by (simp add: df_generator_def)

text \<open>
  Claim C5 says that a configured fill default makes the base node insert every requested
  column that is absent, so that extraction succeeds. A column requested as a tuple of
  name and documentation is looked up and inserted under that tuple by the fill loop,
  which does not unpack it as the loop that builds the extractors does. For
  \<^verbatim>\<open>@extract_columns(('a', 'the a column'), fill_with=0)\<close> on a function that returns a
  frame with the column \<open>b\<close> only, the base node returns a frame with the columns \<open>b\<close> and
  \<^verbatim>\<open>('a', 'the a column')\<close>, and the extractor node of \<open>a\<close> raises on it, its message naming
  the missing column \<open>a\<close> and the columns present.
\<close>

theorem extract_columns_fill_misses_documented_column:
  "map name (extract_columns_expand_node [] example_extract_columns example_df_node []
               example_df_fn) = [''df'', ''a'']
   \<and> callable (extract_columns_expand_node [] example_extract_columns example_df_node []
                 example_df_fn ! 0) [] []
       = Inr (FrameV [(StrV ''b'', ListV [IntV 1, IntV 2]),
                      (TupleV [StrV ''a'', StrV ''the a column''], IntV 0)])
   \<and> callable (extract_columns_expand_node [] example_extract_columns example_df_node []
                 example_df_fn ! 1) []
         [(''df'', FrameV [(StrV ''b'', ListV [IntV 1, IntV 2]),
                           (TupleV [StrV ''a'', StrV ''the a column''], IntV 0)])]
       = Inl (InvalidDecoratorException
               [Lit ''No such column: '', Fmt (StrV ''a''), Lit '' produced by '',
                Fmt (StrV ''df''), Lit ''. It only produced '',
                FmtIndex [StrV ''b'', TupleV [StrV ''a'', StrV ''the a column'']]])"
  by (simp add: extract_columns_expand_node_def example_extract_columns_def example_df_node_def
      example_df_fn_def example_frame_def Node_init_def df_generator_def extractor_fn_def
      extractor_body_def Let_def)

text \<open>
  Claim C7 says that a declared return type that is not the expected record kind fails
  validation with the invalid-decorator error. \<^verbatim>\<open>extract_columns.validate\<close> hands the
  return annotation to \<^verbatim>\<open>issubclass\<close>, which raises \<^verbatim>\<open>TypeError\<close> when the annotation is not
  a class: so for a function declared \<^verbatim>\<open>-> None\<close>, and for one declared
  \<^verbatim>\<open>-> typing.Dict[str, int]\<close>. A class that is no DataFrame gets the invalid-decorator
  error.
\<close>

theorem extract_columns_validate_not_a_class:
  "extract_columns_validate self (fn\<lparr>return_annotation := NoneAnn\<rparr>) = Inl TypeError
   \<and> extract_columns_validate self
         (fn\<lparr>return_annotation := GenericAlias builtins_dict [Class ''str'' [''object''], int_class]\<rparr>)
       = Inl TypeError
   \<and> extract_columns_validate self (fn\<lparr>return_annotation := int_class\<rparr>)
       = Inl (InvalidDecoratorException
               [Lit ''For extracting columns, output type must be pandas dataframe, not: '',
                FmtAnn int_class])"
  by (simp add: extract_columns_validate_def pd_DataFrame_def int_class_def Let_def)

section \<open>Empty functions\<close>

text \<open>What a passed validation of \<^verbatim>\<open>does\<close> guarantees: the bytecode of the function is
  the bytecode of one of the two reference functions, the replacement has exactly one
  parameter, of the \<^verbatim>\<open>**kwargs\<close> kind, and its declared return type is a subclass of the
  function's.\<close>

lemma does_validate_requires:
  assumes "does_validate empty_function empty_function_with_docstring self fn = Inr ()"
  shows "co_code fn \<in> {co_code empty_function, co_code empty_function_with_docstring}
     \<and> (\<exists>key ann. parameters (replacing_function self) = [(key, VAR_KEYWORD, ann)])
     \<and> issubclass (return_annotation (replacing_function self)) (return_annotation fn) = Inr True"
proof -
  from assms have e: "ensure_function_empty empty_function empty_function_with_docstring fn = Inr ()"
    and k: "ensure_function_kwarg_only (replacing_function self) = Inr ()"
    and m: "ensure_output_types_match fn (replacing_function self) = Inr ()"
    by (auto simp: does_validate_def split: sum.splits)
  from e have a: "co_code fn \<in> {co_code empty_function, co_code empty_function_with_docstring}"
    by (auto simp: ensure_function_empty_def split: if_splits)
  from k have b: "\<exists>key ann. parameters (replacing_function self) = [(key, VAR_KEYWORD, ann)]"
    by (cases "parameters (replacing_function self)")
       (auto simp: ensure_function_kwarg_only_def Let_def split: if_splits)
  from m have c: "issubclass (return_annotation (replacing_function self)) (return_annotation fn)
                    = Inr True"
    by (auto simp: ensure_output_types_match_def Let_def split: sum.splits bool.splits)
  from a b c show ?thesis by blast
qed

text \<open>
  Claim C6 says that a function whose body has a statement besides a docstring and a
  no-op fails the validation of \<^verbatim>\<open>does\<close>. \<^verbatim>\<open>ensure_function_empty\<close> compares bytecode, and
  the bytecode of \<^verbatim>\<open>def five() -> int: return 5\<close> is the bytecode of the reference function
  with a docstring: the validation of \<^verbatim>\<open>@does(replacement)\<close> on \<^verbatim>\<open>five\<close> passes.
\<close>

theorem does_validate_accepts_return_constant:
  "does_validate example_empty_function example_empty_function_with_docstring
     \<lparr>replacing_function = example_replacement\<rparr> example_five = Inr ()"
  by (simp add: does_validate_def ensure_function_empty_def ensure_function_kwarg_only_def
      ensure_output_types_match_def example_empty_function_def
      example_empty_function_with_docstring_def example_five_def example_replacement_def
      int_class_def Let_def)

section \<open>Tag validation\<close>

text \<open>What \<^verbatim>\<open>tag.validate\<close> accepts: exactly the tags whose every key is allowed and whose
  every value is a string. An allowed key has no reserved first component and only
  identifiers as components, so it is not empty; and when the values can be hashed, the
  one error raised names every offending pair.\<close>

lemma split_on_not_Nil: "split_on sep s \<noteq> []"
  by (induction s) (auto split: list.splits)

lemma key_allowed_iff:
  "key_allowed isidentifier key
     = (hd (split_on CHR ''.'' key) \<notin> set RESERVED_TAG_NAMESPACES
        \<and> list_all isidentifier (split_on CHR ''.'' key))"
  using split_on_not_Nil [of "CHR ''.''" key] by (simp add: key_allowed_def Let_def)

lemma key_allowed_not_empty:
  "\<not> isidentifier [] \<Longrightarrow> key_allowed isidentifier key \<Longrightarrow> key \<noteq> []"
  by (auto simp: key_allowed_iff)

lemma collect_bad_tags_Inr:
  "collect_bad_tags isidentifier tags' acc = Inr bad \<Longrightarrow>
   set bad = set acc \<union> {(key, value) \<in> set tags'.
               \<not> key_allowed isidentifier key \<or> \<not> value_allowed value}"
proof (induction tags' arbitrary: acc)
  case Nil
  then show ?case by simp
next
  case (Cons t tags')
  obtain key v where t: "t = (key, v)" by (cases t)
  show ?case
  proof (cases "\<not> key_allowed isidentifier key \<or> \<not> value_allowed v")
    case True
    with Cons.prems t have h: "hashable v"
      and r: "collect_bad_tags isidentifier tags'
                (if (key, v) \<in> set acc then acc else acc @ [(key, v)]) = Inr bad"
      by (auto split: if_splits)
    from Cons.IH [OF r] True show ?thesis
      by (auto simp: t)
  next
    case False
    with Cons.prems t have r: "collect_bad_tags isidentifier tags' acc = Inr bad"
      by simp
    from Cons.IH [OF r] False show ?thesis
      by (auto simp: t)
  qed
qed

lemma collect_bad_tags_Inl:
  "collect_bad_tags isidentifier tags' acc = Inl e \<Longrightarrow>
   \<not> list_all (\<lambda>(key, value). key_allowed isidentifier key \<and> value_allowed value) tags'"
proof (induction tags' arbitrary: acc)
  case Nil
  then show ?case by simp
next
  case (Cons t tags')
  obtain key v where t: "t = (key, v)" by (cases t)
  show ?case
  proof (cases "\<not> key_allowed isidentifier key \<or> \<not> value_allowed v")
    case True
    then show ?thesis by (auto simp: t)
  next
    case False
    with Cons.prems t have "collect_bad_tags isidentifier tags' acc = Inl e"
      by simp
    from Cons.IH [OF this] show ?thesis
      by (simp add: t)
  qed
qed

lemma tag_validate_accepts_iff:
  "(tag_validate isidentifier self fn = Inr ())
     = list_all (\<lambda>(key, value). key_allowed isidentifier key \<and> value_allowed value)
         (tag.tags self)"
proof (cases "collect_bad_tags isidentifier (tag.tags self) []")
  case (Inl e)
  from collect_bad_tags_Inl [OF Inl] Inl show ?thesis
    by (simp add: tag_validate_def)
next
  case (Inr bad)
  from collect_bad_tags_Inr [OF Inr]
  have s: "set bad = {(key, value) \<in> set (tag.tags self).
                       \<not> key_allowed isidentifier key \<or> \<not> value_allowed value}"
    by simp
  have "(set bad = {}) = list_all (\<lambda>(key, value). key_allowed isidentifier key \<and> value_allowed value)
                       (tag.tags self)"
    unfolding s list_all_iff by blast
  then have "(bad = []) = list_all (\<lambda>(key, value). key_allowed isidentifier key \<and> value_allowed value)
                       (tag.tags self)"
    by simp
  with Inr show ?thesis
    by (simp add: tag_validate_def Let_def)
qed

lemma tag_validate_rejects_reserved:
  assumes "(key, value) \<in> set (tag.tags self)"
    and "hd (split_on CHR ''.'' key) \<in> set RESERVED_TAG_NAMESPACES"
  shows "tag_validate isidentifier self fn \<noteq> Inr ()"
proof -
  from assms(2) have "\<not> key_allowed isidentifier key"
    by (simp add: key_allowed_iff)
  with assms(1) show ?thesis
    by (auto simp: tag_validate_accepts_iff list_all_iff)
qed

lemma join_parts_member:
  "m \<in> set ms \<Longrightarrow> \<exists>pre post. join_parts sep ms = pre @ m @ post"
proof (induction sep ms rule: join_parts.induct)
  case (1 sep)
  then show ?case by simp
next
  case (2 sep m')
  then have "join_parts sep [m'] = [] @ m @ []" by simp
  then show ?case by blast
next
  case (3 sep m1 m2 ms)
  show ?case
  proof (cases "m = m1")
    case True
    then have "join_parts sep (m1 # m2 # ms) = [] @ m @ ([Lit sep] @ join_parts sep (m2 # ms))"
      by simp
    then show ?thesis by blast
  next
    case False
    with "3.prems" have "m \<in> set (m2 # ms)" by simp
    from "3.IH" [OF this] obtain pre post where "join_parts sep (m2 # ms) = pre @ m @ post"
      by blast
    then have "join_parts sep (m1 # m2 # ms) = (m1 @ [Lit sep] @ pre) @ m @ post"
      by simp
    then show ?thesis by blast
  qed
qed

lemma tag_validate_names_offending:
  assumes hashable: "list_all (\<lambda>(key, value). hashable value) (tag.tags self)"
    and member: "(key, value) \<in> set (tag.tags self)"
    and offending: "\<not> key_allowed isidentifier key \<or> \<not> value_allowed value"
  shows "\<exists>pre post. tag_validate isidentifier self fn
           = Inl (InvalidDecoratorException (pre @ [Fmt (StrV key), Lit ''='', Fmt value] @ post))"
proof -
  from collect_bad_tags_hashable [OF hashable]
  obtain bad where bad: "collect_bad_tags isidentifier (tag.tags self) [] = Inr bad"
    by blast
  from collect_bad_tags_Inr [OF bad] member offending have in_bad: "(key, value) \<in> set bad"
    by auto
  then have ne: "bad \<noteq> []" by auto
  from in_bad have "[Fmt (StrV key), Lit ''='', Fmt value]
      \<in> set (map (\<lambda>(key, value). [Fmt (StrV key), Lit ''='', Fmt value]) bad)"
    by force
  from join_parts_member [OF this]
  obtain pre post where "join_parts '',''
      (map (\<lambda>(key, value). [Fmt (StrV key), Lit ''='', Fmt value]) bad)
        = pre @ [Fmt (StrV key), Lit ''='', Fmt value] @ post"
    by blast
  then have "tag_validate isidentifier self fn
      = Inl (InvalidDecoratorException
          ((Lit ''The following tags are invalid as tags: '' # pre)
           @ [Fmt (StrV key), Lit ''='', Fmt value]
           @ (post @ [Lit '' Tag keys can be split by ., to represent a hierarchy, but each element of the hierarchy must be a valid python identifier. Paths components also cannot be empty. The value can be anything. Note that the following top-level prefixes are reserved as well: '',
                       Fmt (ListV (map StrV RESERVED_TAG_NAMESPACES))])))"
    using bad ne by (simp add: tag_validate_def Let_def)
  then show ?thesis by blast
qed

text \<open>
  Claim C9 says that offending tags are reported by one build-time error that names every
  offending pair. \<^verbatim>\<open>tag.validate\<close> collects the offending pairs in a set; a value that is
  not a string and cannot be hashed, such as the list of \<^verbatim>\<open>tag(owners=['a', 'b'])\<close>, makes
  the insertion raise \<^verbatim>\<open>TypeError\<close> before any message is built.
\<close>

theorem tag_validate_unhashable_value:
  "tag_validate isidentifier \<lparr>tag.tags = [(''owners'', ListV [StrV ''a'', StrV ''b''])]\<rparr> fn
     = Inl TypeError"
  by (simp add: tag_validate_def value_allowed_def)

section \<open>Dependency substitution\<close>

lemma for_each_Inr_map:
  "(\<And>x. x \<in> set xs \<Longrightarrow> f x = Inr (g x)) \<Longrightarrow> for_each f xs = Inr (map g xs)"
  by (induction xs) simp_all

lemma bare_keys:
  "map fst (map (\<lambda>(key, (value, _)). (key, Bare value)) its) = map fst its"
  by (induction its) auto

lemma stored_keys:
  "map fst (map (\<lambda>(key, value). (key, stored_input value)) inputs) = map fst inputs"
  by (induction inputs) auto

lemma keys_update: "set (map fst (AList.update k v d)) = insert k (set (map fst d))"
  using dom_update [of k v d] by simp

lemma keys_delete: "set (map fst (AList.delete k d)) = set (map fst d) - {k}"
  by (simp add: delete_keys)

lemma dict_pop_present:
  assumes "k \<in> set (map fst d)"
  shows "\<exists>v. map_of d k = Some v \<and> dict_pop d k = Inr (v, AList.delete k d)"
proof -
  from assms have "map_of d k \<noteq> None"
    by (simp add: map_of_eq_None_iff)
  then obtain v where "map_of d k = Some v" by blast
  then show ?thesis by (simp add: dict_pop_def)
qed

lemma parametrized_input_new_fn_call:
  assumes "map_of kwargs c = Some v" and "''input_column'' \<notin> set (map fst kwargs)"
  shows "parametrized_input_new_fn p f c args kwargs
           = f args (AList.update p v (AList.delete c kwargs))"
proof -
  from assms(2) have "map_of kwargs ''input_column'' = None"
    by (simp add: map_of_eq_None_iff)
  with assms(1) show ?thesis
    by (simp add: parametrized_input_new_fn_def kwargs_pop_def dict_pop_def)
qed

lemma parametrized_input_expansion:
  assumes p: "parametrized_input.parameter self \<in> set (map fst (input_types node'))"
  shows "\<exists>nodes. parametrized_input_expand_node self node' config fn = Inr nodes
     \<and> length nodes = length (parametrized_input.assigned_output self)
     \<and> (\<forall>i < length (parametrized_input.assigned_output self).
          name (nodes ! i) = fst (snd (parametrized_input.assigned_output self ! i))
        \<and> fst (parametrized_input.assigned_output self ! i)
            \<in> set (map fst (input_types (nodes ! i)))
        \<and> (fst (parametrized_input.assigned_output self ! i) \<noteq> parametrized_input.parameter self
             \<longrightarrow> parametrized_input.parameter self \<notin> set (map fst (input_types (nodes ! i))))
        \<and> (\<forall>args kwargs v.
              map_of kwargs (fst (parametrized_input.assigned_output self ! i)) = Some v
              \<and> ''input_column'' \<notin> set (map fst kwargs) \<longrightarrow>
              callable (nodes ! i) args kwargs
                = callable node' args
                    (AList.update (parametrized_input.parameter self) v
                       (AList.delete (fst (parametrized_input.assigned_output self ! i)) kwargs))))"
proof -
  let ?p = "parametrized_input.parameter self"
  let ?ao = "parametrized_input.assigned_output self"
  let ?B = "map (\<lambda>(key, (value, _)). (key, Bare value)) (input_types node')"
  from p have "?p \<in> set (map fst ?B)"
    by (simp only: bare_keys)
  from dict_pop_present [OF this]
  obtain t where pop: "dict_pop ?B ?p = Inr (t, AList.delete ?p ?B)"
    by blast
  define g where "g = (\<lambda>(input_column, (node_name, node_description)).
      Node_init node_name (type node') node_description
        (parametrized_input_new_fn ?p (callable node') input_column)
        STANDARD (AList.update input_column t (AList.delete ?p ?B)) (node.tags node'))"
  have run: "parametrized_input_expand_node self node' config fn = Inr (map g ?ao)"
    unfolding parametrized_input_expand_node_def
    by (rule for_each_Inr_map) (simp add: pop g_def Let_def split: prod.splits)
  have props: "name (map g ?ao ! i) = fst (snd (?ao ! i))
        \<and> fst (?ao ! i) \<in> set (map fst (input_types (map g ?ao ! i)))
        \<and> (fst (?ao ! i) \<noteq> ?p \<longrightarrow> ?p \<notin> set (map fst (input_types (map g ?ao ! i))))
        \<and> (\<forall>args kwargs v.
              map_of kwargs (fst (?ao ! i)) = Some v \<and> ''input_column'' \<notin> set (map fst kwargs) \<longrightarrow>
              callable (map g ?ao ! i) args kwargs
                = callable node' args (AList.update ?p v (AList.delete (fst (?ao ! i)) kwargs)))"
    if i: "i < length ?ao" for i
  proof -
    obtain c nm doc where e: "?ao ! i = (c, (nm, doc))"
      by (metis surj_pair)
    have n: "map g ?ao ! i = Node_init nm (type node') doc
               (parametrized_input_new_fn ?p (callable node') c)
               STANDARD (AList.update c t (AList.delete ?p ?B)) (node.tags node')"
      using i e by (simp add: g_def)
    have keys: "set (map fst (input_types (map g ?ao ! i)))
                  = insert c (set (map fst ?B) - {?p})"
      unfolding n by (simp only: Node_init_def node.simps stored_keys keys_update keys_delete)
    have call: "callable (map g ?ao ! i) = parametrized_input_new_fn ?p (callable node') c"
      by (simp add: n Node_init_def)
    show ?thesis
      unfolding e fst_conv snd_conv keys call
      by (auto simp: n Node_init_def parametrized_input_new_fn_call)
  qed
  from run props show ?thesis
    by (intro exI [of _ "map g ?ao"]) simp
qed

lemma rename_inputs_keys:
  assumes "distinct (map fst m)"
    and "set (map fst m) \<subseteq> set (map fst inputs)"
    and "set (map snd m) \<inter> set (map fst m) = {}"
  shows "\<exists>inputs'. rename_inputs m inputs = Inr inputs'
           \<and> set (map fst inputs') = (set (map fst inputs) - set (map fst m)) \<union> set (map snd m)"
  using assms
proof (induction m arbitrary: inputs)
  case Nil
  then show ?case by simp
next
  case (Cons x m)
  obtain fp rp where x: "x = (fp, rp)" by (cases x)
  from Cons.prems x have fp: "fp \<in> set (map fst inputs)" and fp_new: "fp \<notin> set (map fst m)"
    and rp_new: "rp \<notin> set (map fst m)" and rp_fp: "rp \<noteq> fp"
    by auto
  from dict_pop_present [OF fp]
  obtain t where pop: "dict_pop inputs fp = Inr (t, AList.delete fp inputs)"
    by blast
  let ?inputs1 = "AList.update rp t (AList.delete fp inputs)"
  have keys1: "set (map fst ?inputs1) = insert rp (set (map fst inputs) - {fp})"
    by (simp only: keys_update keys_delete)
  have d: "distinct (map fst m)"
    using Cons.prems(1) by simp
  have sub: "set (map fst m) \<subseteq> set (map fst ?inputs1)"
    unfolding keys1 using Cons.prems(2) fp_new by auto
  have disj: "set (map snd m) \<inter> set (map fst m) = {}"
    using Cons.prems(3) by auto
  from Cons.IH [OF d sub disj]
  obtain inputs' where r: "rename_inputs m ?inputs1 = Inr inputs'"
    and k: "set (map fst inputs') = (set (map fst ?inputs1) - set (map fst m)) \<union> set (map snd m)"
    by blast
  have "rename_inputs (x # m) inputs = Inr inputs'"
    by (simp add: x pop r)
  moreover have "set (map fst inputs')
      = (set (map fst inputs) - set (map fst (x # m))) \<union> set (map snd (x # m))"
    unfolding k keys1 using rp_new by (auto simp: x)
  ultimately show ?case by blast
qed

lemma rename_kwargs_result:
  assumes "distinct (map fst m)" and "distinct (map snd m)"
    and "set (map snd m) \<subseteq> set (map fst kwargs)"
    and "set (map snd m) \<inter> set (map fst m) = {}"
  shows "\<exists>kwargs'. rename_kwargs m kwargs = Inr kwargs'
           \<and> (\<forall>(fp, rp) \<in> set m. map_of kwargs' fp = map_of kwargs rp \<and> map_of kwargs' rp = None)
           \<and> (\<forall>k. k \<notin> set (map fst m) \<union> set (map snd m) \<longrightarrow> map_of kwargs' k = map_of kwargs k)"
  using assms
proof (induction m arbitrary: kwargs)
  case Nil
  then show ?case by simp
next
  case (Cons x m)
  obtain fp rp where x: "x = (fp, rp)" by (cases x)
  from Cons.prems x have rp: "rp \<in> set (map fst kwargs)"
    and fp_fst: "fp \<notin> set (map fst m)" and fp_snd: "fp \<notin> set (map snd m)"
    and rp_fst: "rp \<notin> set (map fst m)" and rp_snd: "rp \<notin> set (map snd m)"
    and rp_fp: "rp \<noteq> fp"
    by auto
  from dict_pop_present [OF rp]
  obtain v where v: "map_of kwargs rp = Some v"
    and pop: "dict_pop kwargs rp = Inr (v, AList.delete rp kwargs)"
    by blast
  let ?kwargs1 = "AList.update fp v (AList.delete rp kwargs)"
  have m1: "map_of ?kwargs1 k = (if k = fp then Some v else if k = rp then None else map_of kwargs k)"
    for k
    by (simp add: update_conv' delete_conv')
  have keys1: "set (map fst ?kwargs1) = insert fp (set (map fst kwargs) - {rp})"
    by (simp only: keys_update keys_delete)
  have d1: "distinct (map fst m)" and d2: "distinct (map snd m)"
    using Cons.prems(1,2) by simp_all
  have sub: "set (map snd m) \<subseteq> set (map fst ?kwargs1)"
    unfolding keys1 using Cons.prems(3) rp_snd by auto
  have disj: "set (map snd m) \<inter> set (map fst m) = {}"
    using Cons.prems(4) by auto
  from Cons.IH [OF d1 d2 sub disj]
  obtain kwargs' where r: "rename_kwargs m ?kwargs1 = Inr kwargs'"
    and pairs: "\<forall>(fp', rp') \<in> set m.
                  map_of kwargs' fp' = map_of ?kwargs1 rp' \<and> map_of kwargs' rp' = None"
    and others: "\<forall>k. k \<notin> set (map fst m) \<union> set (map snd m) \<longrightarrow>
                  map_of kwargs' k = map_of ?kwargs1 k"
    by blast
  have run: "rename_kwargs (x # m) kwargs = Inr kwargs'"
    by (simp add: x pop r)
  have head: "map_of kwargs' fp = map_of kwargs rp \<and> map_of kwargs' rp = None"
  proof
    from others fp_fst fp_snd have "map_of kwargs' fp = map_of ?kwargs1 fp" by simp
    then show "map_of kwargs' fp = map_of kwargs rp" by (simp add: m1 v)
    from others rp_fst rp_snd have "map_of kwargs' rp = map_of ?kwargs1 rp" by simp
    then show "map_of kwargs' rp = None" using rp_fp by (simp add: m1)
  qed
  have tail: "map_of kwargs' fp' = map_of kwargs rp' \<and> map_of kwargs' rp' = None"
    if "(fp', rp') \<in> set m" for fp' rp'
  proof -
    from that have in_snd: "rp' \<in> set (map snd m)" by force
    with rp_snd fp_snd have ne: "rp' \<noteq> rp" "rp' \<noteq> fp" by auto
    from pairs that have "map_of kwargs' fp' = map_of ?kwargs1 rp'" and "map_of kwargs' rp' = None"
      by auto
    with ne show ?thesis by (simp add: m1)
  qed
  have rest: "map_of kwargs' k = map_of kwargs k"
    if "k \<notin> set (map fst (x # m)) \<union> set (map snd (x # m))" for k
  proof -
    from that x have "k \<noteq> fp" "k \<noteq> rp" "k \<notin> set (map fst m) \<union> set (map snd m)" by auto
    with others show ?thesis by (simp add: m1)
  qed
  from run head tail rest show ?case
    by (auto simp: x)
qed

lemma parameterized_inputs_new_fn_call:
  assumes "''inputs'' \<notin> set (map fst kwargs)" and "rename_kwargs m kwargs = Inr kwargs'"
  shows "parameterized_inputs_new_fn f m args kwargs = f args kwargs'"
proof -
  from assms(1) have "map_of kwargs ''inputs'' = None"
    by (simp add: map_of_eq_None_iff)
  with assms(2) show ?thesis
    by (simp add: parameterized_inputs_new_fn_def)
qed

lemma parameterized_inputs_expansion:
  assumes ok: "list_all (\<lambda>(output_name, mapping).
        distinct (map fst mapping)
        \<and> set (map fst mapping) \<subseteq> set (map fst (input_types node'))
        \<and> set (map snd mapping) \<inter> set (map fst mapping) = {}
        \<and> \<not> isl (format_doc_string str_format (Some (documentation node')) output_name mapping))
      (parametrization self)"
  shows "\<exists>nodes. parameterized_inputs_expand_node str_format self node' config fn = Inr nodes
     \<and> length nodes = length (parametrization self)
     \<and> (\<forall>i < length (parametrization self).
          name (nodes ! i) = fst (parametrization self ! i)
        \<and> (\<forall>(func_param, replacement_param) \<in> set (snd (parametrization self ! i)).
              replacement_param \<in> set (map fst (input_types (nodes ! i)))
              \<and> func_param \<notin> set (map fst (input_types (nodes ! i))))
        \<and> (\<forall>args kwargs.
              distinct (map snd (snd (parametrization self ! i)))
              \<and> set (map snd (snd (parametrization self ! i))) \<subseteq> set (map fst kwargs)
              \<and> ''inputs'' \<notin> set (map fst kwargs) \<longrightarrow>
              (\<exists>kwargs'.
                 callable (nodes ! i) args kwargs = callable node' args kwargs'
                 \<and> (\<forall>(func_param, replacement_param) \<in> set (snd (parametrization self ! i)).
                       map_of kwargs' func_param = map_of kwargs replacement_param
                       \<and> map_of kwargs' replacement_param = None)
                 \<and> (\<forall>k. k \<notin> set (map fst (snd (parametrization self ! i)))
                             \<union> set (map snd (snd (parametrization self ! i))) \<longrightarrow>
                       map_of kwargs' k = map_of kwargs k))))"
proof -
  let ?pz = "parametrization self"
  let ?B = "map (\<lambda>(key, (value, _)). (key, Bare value)) (input_types node')"
  define g where "g = (\<lambda>(output_name, mapping).
      Node_init output_name (type node')
        (projr (format_doc_string str_format (Some (documentation node')) output_name mapping))
        (parameterized_inputs_new_fn (callable node') mapping)
        STANDARD (projr (rename_inputs mapping ?B)) (node.tags node'))"
  have entry: "distinct (map fst mapping)
      \<and> set (map fst mapping) \<subseteq> set (map fst ?B)
      \<and> set (map snd mapping) \<inter> set (map fst mapping) = {}
      \<and> \<not> isl (format_doc_string str_format (Some (documentation node')) output_name mapping)"
    if "(output_name, mapping) \<in> set ?pz" for output_name mapping
  proof -
    from ok have "\<forall>x \<in> set ?pz. case x of (output_name, mapping) \<Rightarrow>
        distinct (map fst mapping)
        \<and> set (map fst mapping) \<subseteq> set (map fst (input_types node'))
        \<and> set (map snd mapping) \<inter> set (map fst mapping) = {}
        \<and> \<not> isl (format_doc_string str_format (Some (documentation node')) output_name mapping)"
      by (simp only: list_all_iff)
    from this [rule_format, OF that] show ?thesis
      unfolding bare_keys by simp
  qed
  have renamed: "\<exists>inputs'. rename_inputs mapping ?B = Inr inputs'
      \<and> set (map fst inputs') = (set (map fst ?B) - set (map fst mapping)) \<union> set (map snd mapping)"
    if "(output_name, mapping) \<in> set ?pz" for output_name mapping
    using entry [OF that] by (intro rename_inputs_keys) simp_all
  have step: "(case x of (output_name, mapping) \<Rightarrow>
         (case format_doc_string str_format (Some (documentation node')) output_name mapping of
            Inl e \<Rightarrow> Inl e
          | Inr node_description \<Rightarrow>
              (case rename_inputs mapping ?B of
                 Inl e \<Rightarrow> Inl e
               | Inr specific_inputs \<Rightarrow>
                   Inr (Node_init output_name (type node') node_description
                          (parameterized_inputs_new_fn (callable node') mapping)
                          STANDARD specific_inputs (node.tags node'))))) = Inr (g x)"
    if x: "x \<in> set ?pz" for x
  proof -
    obtain output_name mapping where e: "x = (output_name, mapping)" by (cases x)
    from entry [of output_name mapping] x e
    obtain d where d: "format_doc_string str_format (Some (documentation node')) output_name mapping
                         = Inr d"
      by (cases "format_doc_string str_format (Some (documentation node')) output_name mapping") auto
    from renamed [of output_name mapping] x e
    obtain inputs' where r: "rename_inputs mapping ?B = Inr inputs'" by blast
    show ?thesis by (simp add: e d r g_def)
  qed
  have run: "parameterized_inputs_expand_node str_format self node' config fn = Inr (map g ?pz)"
    unfolding parameterized_inputs_expand_node_def
    by (rule for_each_Inr_map) (rule step)
  have props: "name (map g ?pz ! i) = fst (?pz ! i)
        \<and> (\<forall>(func_param, replacement_param) \<in> set (snd (?pz ! i)).
              replacement_param \<in> set (map fst (input_types (map g ?pz ! i)))
              \<and> func_param \<notin> set (map fst (input_types (map g ?pz ! i))))
        \<and> (\<forall>args kwargs.
              distinct (map snd (snd (?pz ! i)))
              \<and> set (map snd (snd (?pz ! i))) \<subseteq> set (map fst kwargs)
              \<and> ''inputs'' \<notin> set (map fst kwargs) \<longrightarrow>
              (\<exists>kwargs'.
                 callable (map g ?pz ! i) args kwargs = callable node' args kwargs'
                 \<and> (\<forall>(func_param, replacement_param) \<in> set (snd (?pz ! i)).
                       map_of kwargs' func_param = map_of kwargs replacement_param
                       \<and> map_of kwargs' replacement_param = None)
                 \<and> (\<forall>k. k \<notin> set (map fst (snd (?pz ! i))) \<union> set (map snd (snd (?pz ! i))) \<longrightarrow>
                       map_of kwargs' k = map_of kwargs k)))"
    if i: "i < length ?pz" for i
  proof -
    obtain output_name mapping where e: "?pz ! i = (output_name, mapping)"
      by (cases "?pz ! i")
    from i e have mem: "(output_name, mapping) \<in> set ?pz"
      by (metis nth_mem)
    from renamed [OF mem]
    obtain inputs' where r: "rename_inputs mapping ?B = Inr inputs'"
      and k: "set (map fst inputs')
                = (set (map fst ?B) - set (map fst mapping)) \<union> set (map snd mapping)"
      by blast
    from entry [OF mem] have dfst: "distinct (map fst mapping)"
      and disj: "set (map snd mapping) \<inter> set (map fst mapping) = {}"
      by simp_all
    have n: "map g ?pz ! i = Node_init output_name (type node')
               (projr (format_doc_string str_format (Some (documentation node')) output_name mapping))
               (parameterized_inputs_new_fn (callable node') mapping)
               STANDARD inputs' (node.tags node')"
      using i e by (simp add: g_def r)
    have keys: "set (map fst (input_types (map g ?pz ! i)))
                  = (set (map fst ?B) - set (map fst mapping)) \<union> set (map snd mapping)"
      unfolding n by (simp only: Node_init_def node.simps stored_keys k)
    have call: "callable (map g ?pz ! i) = parameterized_inputs_new_fn (callable node') mapping"
      by (simp add: n Node_init_def)
    have a: "name (map g ?pz ! i) = fst (?pz ! i)"
      by (simp add: n e Node_init_def)
    have b: "replacement_param \<in> set (map fst (input_types (map g ?pz ! i)))
             \<and> func_param \<notin> set (map fst (input_types (map g ?pz ! i)))"
      if "(func_param, replacement_param) \<in> set mapping" for func_param replacement_param
    proof -
      from that have "func_param \<in> set (map fst mapping)" and "replacement_param \<in> set (map snd mapping)"
        by force+
      with disj show ?thesis unfolding keys by auto
    qed
    have c: "\<exists>kwargs'.
               callable (map g ?pz ! i) args kwargs = callable node' args kwargs'
               \<and> (\<forall>(func_param, replacement_param) \<in> set mapping.
                     map_of kwargs' func_param = map_of kwargs replacement_param
                     \<and> map_of kwargs' replacement_param = None)
               \<and> (\<forall>k. k \<notin> set (map fst mapping) \<union> set (map snd mapping) \<longrightarrow>
                     map_of kwargs' k = map_of kwargs k)"
      if "distinct (map snd mapping)" and "set (map snd mapping) \<subseteq> set (map fst kwargs)"
        and "''inputs'' \<notin> set (map fst kwargs)" for args kwargs
    proof -
      from rename_kwargs_result [OF dfst that(1) that(2) disj]
      obtain kwargs' where rk: "rename_kwargs mapping kwargs = Inr kwargs'"
        and p1: "\<forall>(fp, rp) \<in> set mapping.
                   map_of kwargs' fp = map_of kwargs rp \<and> map_of kwargs' rp = None"
        and p2: "\<forall>k. k \<notin> set (map fst mapping) \<union> set (map snd mapping) \<longrightarrow>
                   map_of kwargs' k = map_of kwargs k"
        by blast
      have "callable (map g ?pz ! i) args kwargs = callable node' args kwargs'"
        unfolding call by (rule parameterized_inputs_new_fn_call [OF that(3) rk])
      with p1 p2 show ?thesis by blast
    qed
    from a b c show ?thesis
      unfolding e snd_conv by blast
  qed
  from run props show ?thesis
    by (intro exI [of _ "map g ?pz"]) simp
qed

text \<open>
  The docstring of an entry formats only if none of its target parameters is named like a
  parameter of \<^verbatim>\<open>format_doc_string\<close>; expansion of a mapping with the target \<^verbatim>\<open>doc\<close> raises
  \<^verbatim>\<open>TypeError\<close>.
\<close>

lemma format_doc_string_formats_keys:
  "\<not> isl (format_doc_string str_format doc output_name params) \<Longrightarrow>
   key \<in> set (map fst params) \<Longrightarrow> key \<notin> {''self'', ''doc'', ''output_name''}"
  by (auto simp: format_doc_string_def list_ex_iff split: if_splits)

lemma parameterized_inputs_expand_node_target_named_doc:
  "parameterized_inputs_expand_node str_format
     \<lparr>parametrization = [(''signups_a'', [(''doc'', ''a'')])]\<rparr> node' config fn = Inl TypeError"
  by (simp add: parameterized_inputs_expand_node_def format_doc_string_def Let_def)

text \<open>
  Claim C3, as the code has it. Singular form (\<^verbatim>\<open>parametrized_input\<close>), with the target
  parameter in the node's input-dependency map: expansion returns one node per entry, named
  as the entry says; its input-dependency map contains the substitute name, and not the
  target parameter when the two names differ; and invoked with named arguments that hold
  the substitute name, and none called \<^verbatim>\<open>input_column\<close> (the wrapper's own keyword), its
  implementation calls the original with the substitute's value under the target name and
  the substitute name removed.
  Plural form (\<^verbatim>\<open>parameterized_inputs\<close>), where every entry maps distinct target parameters
  of the input-dependency map to substitutes none of which is a target of the entry, and
  its docstring formats (so no target is named \<^verbatim>\<open>self\<close>, \<^verbatim>\<open>doc\<close> or \<^verbatim>\<open>output_name\<close>, which
  the call of \<^verbatim>\<open>format_doc_string\<close> refuses): expansion returns one node per entry, named
  as the entry says;
  its input-dependency map contains every substitute and no target; and invoked with named
  arguments that hold the substitutes, which are distinct, and none called \<^verbatim>\<open>inputs\<close>, its
  implementation calls the original with each substitute's value under its target name,
  the substitute names removed and every other argument unchanged.
\<close>

theorem dependency_substitution_correct:
  "(parametrized_input.parameter self \<in> set (map fst (input_types node')) \<longrightarrow>
     (\<exists>nodes. parametrized_input_expand_node self node' config fn = Inr nodes
       \<and> length nodes = length (parametrized_input.assigned_output self)
       \<and> (\<forall>i < length (parametrized_input.assigned_output self).
            name (nodes ! i) = fst (snd (parametrized_input.assigned_output self ! i))
          \<and> fst (parametrized_input.assigned_output self ! i)
              \<in> set (map fst (input_types (nodes ! i)))
          \<and> (fst (parametrized_input.assigned_output self ! i)
                \<noteq> parametrized_input.parameter self
               \<longrightarrow> parametrized_input.parameter self \<notin> set (map fst (input_types (nodes ! i))))
          \<and> (\<forall>args kwargs v.
                map_of kwargs (fst (parametrized_input.assigned_output self ! i)) = Some v
                \<and> ''input_column'' \<notin> set (map fst kwargs) \<longrightarrow>
                callable (nodes ! i) args kwargs
                  = callable node' args
                      (AList.update (parametrized_input.parameter self) v
                         (AList.delete (fst (parametrized_input.assigned_output self ! i))
                            kwargs))))))
   \<and> (list_all (\<lambda>(output_name, mapping).
          distinct (map fst mapping)
          \<and> set (map fst mapping) \<subseteq> set (map fst (input_types node'))
          \<and> set (map snd mapping) \<inter> set (map fst mapping) = {}
          \<and> \<not> isl (format_doc_string str_format (Some (documentation node')) output_name mapping))
        (parametrization self') \<longrightarrow>
     (\<exists>nodes. parameterized_inputs_expand_node str_format self' node' config fn = Inr nodes
       \<and> length nodes = length (parametrization self')
       \<and> (\<forall>i < length (parametrization self').
            name (nodes ! i) = fst (parametrization self' ! i)
          \<and> (\<forall>(func_param, replacement_param) \<in> set (snd (parametrization self' ! i)).
                replacement_param \<in> set (map fst (input_types (nodes ! i)))
                \<and> func_param \<notin> set (map fst (input_types (nodes ! i))))
          \<and> (\<forall>args kwargs.
                distinct (map snd (snd (parametrization self' ! i)))
                \<and> set (map snd (snd (parametrization self' ! i))) \<subseteq> set (map fst kwargs)
                \<and> ''inputs'' \<notin> set (map fst kwargs) \<longrightarrow>
                (\<exists>kwargs'.
                   callable (nodes ! i) args kwargs = callable node' args kwargs'
                   \<and> (\<forall>(func_param, replacement_param) \<in> set (snd (parametrization self' ! i)).
                         map_of kwargs' func_param = map_of kwargs replacement_param
                         \<and> map_of kwargs' replacement_param = None)
                   \<and> (\<forall>k. k \<notin> set (map fst (snd (parametrization self' ! i)))
                               \<union> set (map snd (snd (parametrization self' ! i))) \<longrightarrow>
                         map_of kwargs' k = map_of kwargs k))))))"
proof (intro conjI impI)
  assume "parametrized_input.parameter self \<in> set (map fst (input_types node'))"
  then show "\<exists>nodes. parametrized_input_expand_node self node' config fn = Inr nodes
       \<and> length nodes = length (parametrized_input.assigned_output self)
       \<and> (\<forall>i < length (parametrized_input.assigned_output self).
            name (nodes ! i) = fst (snd (parametrized_input.assigned_output self ! i))
          \<and> fst (parametrized_input.assigned_output self ! i)
              \<in> set (map fst (input_types (nodes ! i)))
          \<and> (fst (parametrized_input.assigned_output self ! i)
                \<noteq> parametrized_input.parameter self
               \<longrightarrow> parametrized_input.parameter self \<notin> set (map fst (input_types (nodes ! i))))
          \<and> (\<forall>args kwargs v.
                map_of kwargs (fst (parametrized_input.assigned_output self ! i)) = Some v
                \<and> ''input_column'' \<notin> set (map fst kwargs) \<longrightarrow>
                callable (nodes ! i) args kwargs
                  = callable node' args
                      (AList.update (parametrized_input.parameter self) v
                         (AList.delete (fst (parametrized_input.assigned_output self ! i))
                            kwargs))))"
    by (rule parametrized_input_expansion)
next
  assume "list_all (\<lambda>(output_name, mapping).
          distinct (map fst mapping)
          \<and> set (map fst mapping) \<subseteq> set (map fst (input_types node'))
          \<and> set (map snd mapping) \<inter> set (map fst mapping) = {}
          \<and> \<not> isl (format_doc_string str_format (Some (documentation node')) output_name mapping))
        (parametrization self')"
  then show "\<exists>nodes. parameterized_inputs_expand_node str_format self' node' config fn = Inr nodes
       \<and> length nodes = length (parametrization self')
       \<and> (\<forall>i < length (parametrization self').
            name (nodes ! i) = fst (parametrization self' ! i)
          \<and> (\<forall>(func_param, replacement_param) \<in> set (snd (parametrization self' ! i)).
                replacement_param \<in> set (map fst (input_types (nodes ! i)))
                \<and> func_param \<notin> set (map fst (input_types (nodes ! i))))
          \<and> (\<forall>args kwargs.
                distinct (map snd (snd (parametrization self' ! i)))
                \<and> set (map snd (snd (parametrization self' ! i))) \<subseteq> set (map fst kwargs)
                \<and> ''inputs'' \<notin> set (map fst kwargs) \<longrightarrow>
                (\<exists>kwargs'.
                   callable (nodes ! i) args kwargs = callable node' args kwargs'
                   \<and> (\<forall>(func_param, replacement_param) \<in> set (snd (parametrization self' ! i)).
                         map_of kwargs' func_param = map_of kwargs replacement_param
                         \<and> map_of kwargs' replacement_param = None)
                   \<and> (\<forall>k. k \<notin> set (map fst (snd (parametrization self' ! i)))
                               \<union> set (map snd (snd (parametrization self' ! i))) \<longrightarrow>
                         map_of kwargs' k = map_of kwargs k))))"
    by (rule parameterized_inputs_expansion)
qed

theorem dependency_substitution_correct_witness:
  "parametrized_input.parameter example_parametrized_input
     \<in> set (map fst (input_types example_node))
   \<and> ''x'' \<notin> set (map fst (input_types (hd (projr (parametrized_input_expand_node
                 example_parametrized_input example_node [] example_fn)))))
   \<and> callable (hd (projr (parametrized_input_expand_node example_parametrized_input
                           example_node [] example_fn)))
        [] [(''a'', IntV 1), (''y'', IntV 2)]
       = Inr (TupleV [IntV 1, IntV 2])
   \<and> callable (hd (projr (parameterized_inputs_expand_node plain_format
                           example_parameterized_inputs example_node [] example_fn)))
        [] [(''a'', IntV 1), (''y'', IntV 2)]
       = Inr (TupleV [IntV 1, IntV 2])"
proof -
  have h1: "parametrized_input.parameter example_parametrized_input
              \<in> set (map fst (input_types example_node))"
    by (simp add: example_parametrized_input_def example_node_def)
  have h2: "list_all (\<lambda>(output_name, mapping).
          distinct (map fst mapping)
          \<and> set (map fst mapping) \<subseteq> set (map fst (input_types example_node))
          \<and> set (map snd mapping) \<inter> set (map fst mapping) = {}
          \<and> \<not> isl (format_doc_string plain_format (Some (documentation example_node))
                    output_name mapping))
        (parametrization example_parameterized_inputs)"
    by (simp add: example_parameterized_inputs_def example_node_def format_doc_string_def
        plain_format_def RESERVED_KWARG_def)
  note t = dependency_substitution_correct
             [of example_parametrized_input example_node "[]" example_fn plain_format
                 example_parameterized_inputs]
  from t [THEN conjunct1, rule_format, OF h1]
  obtain nodes where run: "parametrized_input_expand_node example_parametrized_input
                             example_node [] example_fn = Inr nodes"
    and len: "length nodes = length (parametrized_input.assigned_output example_parametrized_input)"
    and props: "\<forall>i < length (parametrized_input.assigned_output example_parametrized_input).
       name (nodes ! i)
         = fst (snd (parametrized_input.assigned_output example_parametrized_input ! i))
     \<and> fst (parametrized_input.assigned_output example_parametrized_input ! i)
         \<in> set (map fst (input_types (nodes ! i)))
     \<and> (fst (parametrized_input.assigned_output example_parametrized_input ! i)
           \<noteq> parametrized_input.parameter example_parametrized_input
          \<longrightarrow> parametrized_input.parameter example_parametrized_input
                \<notin> set (map fst (input_types (nodes ! i))))
     \<and> (\<forall>args kwargs v.
           map_of kwargs (fst (parametrized_input.assigned_output example_parametrized_input ! i))
             = Some v
           \<and> ''input_column'' \<notin> set (map fst kwargs) \<longrightarrow>
           callable (nodes ! i) args kwargs
             = callable example_node args
                 (AList.update (parametrized_input.parameter example_parametrized_input) v
                    (AList.delete
                       (fst (parametrized_input.assigned_output example_parametrized_input ! i))
                       kwargs)))"
    by blast
  have i0: "0 < length (parametrized_input.assigned_output example_parametrized_input)"
    by (simp add: example_parametrized_input_def)
  from len i0 have hd0: "hd nodes = nodes ! 0"
    by (cases nodes) simp_all
  have ne: "fst (parametrized_input.assigned_output example_parametrized_input ! 0)
              \<noteq> parametrized_input.parameter example_parametrized_input"
    by (simp add: example_parametrized_input_def)
  from props [rule_format, OF i0, THEN conjunct2, THEN conjunct2, THEN conjunct1, rule_format,
              OF ne]
  have "''x'' \<notin> set (map fst (input_types (nodes ! 0)))"
    by (simp add: example_parametrized_input_def)
  then have absent: "''x'' \<notin> set (map fst (input_types (hd (projr
                        (parametrized_input_expand_node example_parametrized_input
                           example_node [] example_fn)))))"
    by (simp add: run hd0)
  have kw: "map_of [(''a'', IntV 1), (''y'', IntV 2)]
              (fst (parametrized_input.assigned_output example_parametrized_input ! 0))
              = Some (IntV 1)
            \<and> ''input_column'' \<notin> set (map fst [(''a'', IntV 1), (''y'', IntV 2)])"
    by (simp add: example_parametrized_input_def)
  from props [rule_format, OF i0, THEN conjunct2, THEN conjunct2, THEN conjunct2, rule_format,
              OF kw]
  have "callable (nodes ! 0) [] [(''a'', IntV 1), (''y'', IntV 2)]
          = callable example_node []
              (AList.update (parametrized_input.parameter example_parametrized_input) (IntV 1)
                 (AList.delete
                    (fst (parametrized_input.assigned_output example_parametrized_input ! 0))
                    [(''a'', IntV 1), (''y'', IntV 2)]))" .
  also have "\<dots> = Inr (TupleV [IntV 1, IntV 2])"
    by (simp add: example_parametrized_input_def example_node_def example_fn_def)
  finally have call: "callable (hd (projr (parametrized_input_expand_node
                         example_parametrized_input example_node [] example_fn)))
                        [] [(''a'', IntV 1), (''y'', IntV 2)]
                      = Inr (TupleV [IntV 1, IntV 2])"
    by (simp add: run hd0)
  from t [THEN conjunct2, rule_format, OF h2]
  obtain nodes' where run': "parameterized_inputs_expand_node plain_format
                               example_parameterized_inputs example_node [] example_fn = Inr nodes'"
    and len': "length nodes' = length (parametrization example_parameterized_inputs)"
    and props': "\<forall>i < length (parametrization example_parameterized_inputs).
            name (nodes' ! i) = fst (parametrization example_parameterized_inputs ! i)
          \<and> (\<forall>(func_param, replacement_param)
                  \<in> set (snd (parametrization example_parameterized_inputs ! i)).
                replacement_param \<in> set (map fst (input_types (nodes' ! i)))
                \<and> func_param \<notin> set (map fst (input_types (nodes' ! i))))
          \<and> (\<forall>args kwargs.
                distinct (map snd (snd (parametrization example_parameterized_inputs ! i)))
                \<and> set (map snd (snd (parametrization example_parameterized_inputs ! i)))
                    \<subseteq> set (map fst kwargs)
                \<and> ''inputs'' \<notin> set (map fst kwargs) \<longrightarrow>
                (\<exists>kwargs'.
                   callable (nodes' ! i) args kwargs = callable example_node args kwargs'
                   \<and> (\<forall>(func_param, replacement_param)
                           \<in> set (snd (parametrization example_parameterized_inputs ! i)).
                         map_of kwargs' func_param = map_of kwargs replacement_param
                         \<and> map_of kwargs' replacement_param = None)
                   \<and> (\<forall>k. k \<notin> set (map fst (snd (parametrization
                                    example_parameterized_inputs ! i)))
                               \<union> set (map snd (snd (parametrization
                                    example_parameterized_inputs ! i))) \<longrightarrow>
                         map_of kwargs' k = map_of kwargs k)))"
    by blast
  have j0: "0 < length (parametrization example_parameterized_inputs)"
    by (simp add: example_parameterized_inputs_def)
  from len' j0 have hd0': "hd nodes' = nodes' ! 0"
    by (cases nodes') simp_all
  have kw': "distinct (map snd (snd (parametrization example_parameterized_inputs ! 0)))
      \<and> set (map snd (snd (parametrization example_parameterized_inputs ! 0)))
          \<subseteq> set (map fst [(''a'', IntV 1), (''y'', IntV 2)])
      \<and> ''inputs'' \<notin> set (map fst [(''a'', IntV 1), (''y'', IntV 2)])"
    by (simp add: example_parameterized_inputs_def)
  from props' [rule_format, OF j0, THEN conjunct2, THEN conjunct2, rule_format, OF kw', of "[]"]
  obtain kwargs' where
    c1: "callable (nodes' ! 0) [] [(''a'', IntV 1), (''y'', IntV 2)]
           = callable example_node [] kwargs'"
    and c2: "\<forall>(func_param, replacement_param)
               \<in> set (snd (parametrization example_parameterized_inputs ! 0)).
             map_of kwargs' func_param
               = map_of [(''a'', IntV 1), (''y'', IntV 2)] replacement_param
             \<and> map_of kwargs' replacement_param = None"
    and c3: "\<forall>k. k \<notin> set (map fst (snd (parametrization example_parameterized_inputs ! 0)))
                   \<union> set (map snd (snd (parametrization example_parameterized_inputs ! 0)))
               \<longrightarrow> map_of kwargs' k = map_of [(''a'', IntV 1), (''y'', IntV 2)] k"
    by blast
  from c2 have x: "map_of kwargs' ''x'' = Some (IntV 1)"
    by (simp add: example_parameterized_inputs_def)
  from c3 [rule_format, of "''y''"] have y: "map_of kwargs' ''y'' = Some (IntV 2)"
    by (simp add: example_parameterized_inputs_def)
  from x y have "callable example_node [] kwargs' = Inr (TupleV [IntV 1, IntV 2])"
    by (simp add: example_node_def example_fn_def)
  with c1 have call': "callable (hd (projr (parameterized_inputs_expand_node plain_format
                           example_parameterized_inputs example_node [] example_fn)))
                        [] [(''a'', IntV 1), (''y'', IntV 2)]
                      = Inr (TupleV [IntV 1, IntV 2])"
    by (simp add: run' hd0')
  from h1 absent call call' show ?thesis by blast
qed

text \<open>
  The claim as the spec words it, for every expansion and every entry, fails in four
  ways. A substitute named \<^verbatim>\<open>input_column\<close> is in the input-dependency map, but a call
  that passes it binds the wrapper's own keyword parameter and ends in a \<^verbatim>\<open>KeyError\<close>
  where the original would have returned. A substitute that is the target parameter
  leaves the target in the map. In the plural form \<^verbatim>\<open>{'x': 'y', 'y': 'z'}\<close> the
  substitute \<open>y\<close> is renamed away again, and with \<^verbatim>\<open>{'x': 'a', 'y': 'a'}\<close> the second
  \<^verbatim>\<open>kwargs.pop('a')\<close> of the wrapper raises \<^verbatim>\<open>KeyError\<close>.
\<close>

theorem dependency_substitution_counterexample:
  "\<not> isl (parametrized_input_expand_node captured_parametrized_input example_node []
            example_fn)
   \<and> map fst (input_types (hd (projr (parametrized_input_expand_node
                  captured_parametrized_input example_node [] example_fn))))
       = [''y'', ''input_column'']
   \<and> callable (hd (projr (parametrized_input_expand_node captured_parametrized_input
                           example_node [] example_fn)))
        [] [(''input_column'', IntV 1), (''y'', IntV 2)]
       = Inl (KeyError (IntV 1))
   \<and> callable example_node [] [(''x'', IntV 1), (''y'', IntV 2)]
       = Inr (TupleV [IntV 1, IntV 2])
   \<and> map fst (input_types (hd (projr (parametrized_input_expand_node
                  same_name_parametrized_input example_node [] example_fn))))
       = [''y'', ''x'']
   \<and> map fst (input_types (hd (projr (parameterized_inputs_expand_node plain_format
                  chained_parameterized_inputs example_node [] example_fn))))
       = [''z'']
   \<and> callable (hd (projr (parameterized_inputs_expand_node plain_format
                  shared_parameterized_inputs example_node [] example_fn)))
        [] [(''a'', IntV 1)]
       = Inl (KeyError (StrV ''a''))"
  by (simp add: parametrized_input_expand_node_def parameterized_inputs_expand_node_def
      captured_parametrized_input_def same_name_parametrized_input_def
      chained_parameterized_inputs_def shared_parameterized_inputs_def
      example_node_def example_fn_def Node_init_def dict_pop_def kwargs_pop_def
      parametrized_input_new_fn_def parameterized_inputs_new_fn_def format_doc_string_def
      plain_format_def RESERVED_KWARG_def Let_def)

end
